theory Spec2Isabelle
  imports Complex_Main "HOL-Library.Word"
begin

section \<open>The Pong simulation of glpong: data model\<close>

text \<open>
  The program keeps its simulation state in global variables and in two locals of
  \<^verbatim>\<open>main\<close>; one iteration of the render loop is one simulation step. The C++
  \<^verbatim>\<open>float\<close> and \<^verbatim>\<open>double\<close> values are modelled by real numbers: rounding,
  infinities and NaN are outside this model. The \<^verbatim>\<open>unsigned int\<close> variables are
  32-bit words, converted to a real where the source mixes them with floats.
\<close>

record vec2 =
  x :: real
  y :: real

text \<open>The two-element arrays \<^verbatim>\<open>paddleOffsets[2]\<close> and \<^verbatim>\<open>paddleVelocities[2]\<close>;
  the source indexes them with 0 and 1 only.\<close>

definition nth2 :: "'a \<times> 'a \<Rightarrow> nat \<Rightarrow> 'a" where
  "nth2 p i = (if i = 0 then fst p else snd p)"

definition upd2 :: "'a \<times> 'a \<Rightarrow> nat \<Rightarrow> 'a \<Rightarrow> 'a \<times> 'a" where
  "upd2 p i v = (if i = 0 then (v, snd p) else (fst p, v))"

record state =
  scrWidth :: "32 word"
  scrHeight :: "32 word"
  paddleOffsets :: "vec2 \<times> vec2"
  ballOffset :: vec2
  paddleVelocities :: "real \<times> real"
  initBallVelocity :: vec2
  ballVelocity :: vec2
  framesSinceLastCollision :: "32 word"

text \<open>The keys polled by \<^verbatim>\<open>processInput\<close>. Escape only closes the window and has
  no effect on the simulation state.\<close>

record keys =
  keyW :: bool
  keyS :: bool
  keyUP :: bool
  keyDOWN :: bool

subsection \<open>Constants\<close>

definition paddleSpeed :: real where "paddleSpeed = 150"
definition paddleHeight :: real where "paddleHeight = 100"
definition halfPaddleHeight :: real where "halfPaddleHeight = paddleHeight / 2"
definition paddleWidth :: real where "paddleWidth = 10"
definition halfPaddleWidth :: real where "halfPaddleWidth = paddleWidth / 2"
definition ballDiameter :: real where "ballDiameter = 16"
definition ballRadius :: real where "ballRadius = ballDiameter / 2"
definition offset :: real where "offset = ballRadius"
definition paddleBoundary :: real where "paddleBoundary = halfPaddleHeight + offset"
definition framesThreshold :: "32 word" where "framesThreshold = 10"

text \<open>Conversion of an \<^verbatim>\<open>unsigned int\<close> to a float.\<close>

definition toFloat :: "32 word \<Rightarrow> real" where
  "toFloat w = real (unat w)"

text \<open>The state \<^verbatim>\<open>main\<close> sets up before the render loop, with the default
  800 by 600 window.\<close>

definition initState :: state where
  "initState = \<lparr> scrWidth = 800, scrHeight = 600,
     paddleOffsets = (\<lparr>x = 35, y = toFloat 600 / 2\<rparr>, \<lparr>x = toFloat 800 - 35, y = toFloat 600 / 2\<rparr>),
     ballOffset = \<lparr>x = toFloat 800 / 2, y = toFloat 600 / 2\<rparr>,
     paddleVelocities = (0, 0),
     initBallVelocity = \<lparr>x = 150, y = 150\<rparr>,
     ballVelocity = \<lparr>x = 150, y = 150\<rparr>,
     framesSinceLastCollision = - 1 \<rparr>"

section \<open>Input processing\<close>

text \<open>One of the four key blocks of \<^verbatim>\<open>processInput\<close>: the key that moves paddle
  \<open>i\<close> up sets its velocity while the paddle is below the upper limit and pins its
  position to the limit otherwise.\<close>

definition pressUp :: "nat \<Rightarrow> state \<Rightarrow> state" where
  "pressUp i s =
     (if y (nth2 (paddleOffsets s) i) < toFloat (scrHeight s) - paddleBoundary
      then s\<lparr>paddleVelocities := upd2 (paddleVelocities s) i paddleSpeed\<rparr>
      else s\<lparr>paddleOffsets := upd2 (paddleOffsets s) i
             ((nth2 (paddleOffsets s) i)\<lparr>y := toFloat (scrHeight s) - paddleBoundary\<rparr>)\<rparr>)"

definition pressDown :: "nat \<Rightarrow> state \<Rightarrow> state" where
  "pressDown i s =
     (if y (nth2 (paddleOffsets s) i) > paddleBoundary
      then s\<lparr>paddleVelocities := upd2 (paddleVelocities s) i (- paddleSpeed)\<rparr>
      else s\<lparr>paddleOffsets := upd2 (paddleOffsets s) i
             ((nth2 (paddleOffsets s) i)\<lparr>y := paddleBoundary\<rparr>)\<rparr>)"

definition processInput :: "keys \<Rightarrow> real \<Rightarrow> state \<Rightarrow> state" where
  "processInput k dt s0 =
     (let s1 = s0\<lparr>paddleVelocities := (0, 0)\<rparr>;
          s2 = (if keyW k then pressUp 0 s1 else s1);
          s3 = (if keyS k then pressDown 0 s2 else s2);
          s4 = (if keyUP k then pressUp 1 s3 else s3);
          s5 = (if keyDOWN k then pressDown 1 s4 else s4)
      in s5)"

section \<open>The expressions of the paddle-collision check\<close>

text \<open>The test guarding the paddle-collision block, on the frame counter.\<close>

definition eligible :: "32 word \<Rightarrow> bool" where
  "eligible c \<longleftrightarrow> c \<ge> framesThreshold \<or> c = - 1"

text \<open>The index \<^verbatim>\<open>i\<close> of the paddle the ball is checked against.\<close>

definition candidate :: "state \<Rightarrow> nat" where
  "candidate s = (if x (ballOffset s) > toFloat (scrHeight s) / 2 then 1 else 0)"

definition distance :: "state \<Rightarrow> vec2" where
  "distance s =
     \<lparr> x = \<bar>x (ballOffset s) - x (nth2 (paddleOffsets s) (candidate s))\<bar>,
       y = \<bar>y (ballOffset s) - y (nth2 (paddleOffsets s) (candidate s))\<bar> \<rparr>"

definition collisionPossible :: "state \<Rightarrow> bool" where
  "collisionPossible s \<longleftrightarrow>
     x (distance s) \<le> halfPaddleWidth + ballRadius \<and>
     y (distance s) \<le> halfPaddleHeight + ballRadius"

definition lengthCollision :: "state \<Rightarrow> bool" where
  "lengthCollision s \<longleftrightarrow>
     x (distance s) \<le> halfPaddleWidth \<and> x (distance s) \<ge> halfPaddleWidth - ballRadius"

definition widthCollision :: "state \<Rightarrow> bool" where
  "widthCollision s \<longleftrightarrow>
     y (distance s) \<le> halfPaddleHeight \<and> y (distance s) \<ge> halfPaddleHeight - ballRadius"

definition cornerCollision :: "state \<Rightarrow> bool" where
  "cornerCollision s \<longleftrightarrow>
     (x (distance s) - halfPaddleWidth) * (x (distance s) - halfPaddleWidth) +
     (y (distance s) - halfPaddleHeight) * (y (distance s) - halfPaddleHeight)
       \<le> ballRadius * ballRadius"

definition signedDifference :: "state \<Rightarrow> real" where
  "signedDifference s =
     (let d = x (nth2 (paddleOffsets s) (candidate s)) - x (ballOffset s)
      in if candidate s = 0 then d * (- 1) else d)"

text \<open>The side the spec's paddle selection names: the half of the screen width.\<close>

definition candidate_spec :: "state \<Rightarrow> nat" where
  "candidate_spec s = (if x (ballOffset s) > toFloat (scrWidth s) / 2 then 1 else 0)"

text \<open>The simpler eligibility test, without the sentinel disjunct.\<close>

definition eligible_simple :: "32 word \<Rightarrow> bool" where
  "eligible_simple c \<longleftrightarrow> c \<ge> framesThreshold"

section \<open>The phases of one frame\<close>

text \<open>The statement groups of the render loop's body, in the order of the source,
  each as a function on the state. The frame counter is advanced first, unless it holds
  the sentinel.\<close>

definition countFrames :: "state \<Rightarrow> state" where
  "countFrames s =
     (if framesSinceLastCollision s \<noteq> - 1
      then s\<lparr>framesSinceLastCollision := framesSinceLastCollision s + 1\<rparr>
      else s)"

definition wallCollisions :: "state \<Rightarrow> state" where
  "wallCollisions s =
     (if y (ballOffset s) - ballRadius \<le> 0 \<or> y (ballOffset s) + ballRadius \<ge> toFloat (scrHeight s)
      then s\<lparr>ballVelocity := (ballVelocity s)\<lparr>y := y (ballVelocity s) * (- 1)\<rparr>\<rparr>
      else s)"

text \<open>The local \<^verbatim>\<open>reset\<close>: 1 is "Right player point", 2 is "Left player point".\<close>

definition resetCode :: "state \<Rightarrow> nat" where
  "resetCode s =
     (if x (ballOffset s) - ballRadius \<le> 0 then 1
      else if x (ballOffset s) + ballRadius \<ge> toFloat (scrWidth s) then 2
      else 0)"

definition scoring :: "state \<Rightarrow> state" where
  "scoring s =
     (if resetCode s \<noteq> 0
      then s\<lparr>ballOffset := \<lparr>x = toFloat (scrWidth s) / 2, y = toFloat (scrHeight s) / 2\<rparr>,
             ballVelocity := \<lparr>x = (if resetCode s = 1 then x (initBallVelocity s)
                                   else - x (initBallVelocity s)),
                              y = y (initBallVelocity s)\<rparr>\<rparr>
      else s)"

definition flipX :: "vec2 \<Rightarrow> vec2" where
  "flipX v = v\<lparr>x := x v * (- 1)\<rparr>"

definition flipY :: "vec2 \<Rightarrow> vec2" where
  "flipY v = v\<lparr>y := y v * (- 1)\<rparr>"

text \<open>The first if/else-if of the check: the local flag \<^verbatim>\<open>collision\<close> and the
  ball velocity after it.\<close>

definition faceCheck :: "state \<Rightarrow> bool \<times> vec2" where
  "faceCheck s =
     (if lengthCollision s then (True, flipX (ballVelocity s))
      else if widthCollision s then (True, flipY (ballVelocity s))
      else (False, ballVelocity s))"

text \<open>The corner test that follows, run only when the flag is still false.\<close>

definition cornerCheck :: "state \<Rightarrow> bool \<times> vec2 \<Rightarrow> bool \<times> vec2" where
  "cornerCheck s cv =
     (if cornerCollision s \<and> \<not> fst cv
      then (True,
            if y (distance s) - halfPaddleHeight \<le> signedDifference s - halfPaddleWidth
            then flipX (snd cv) else flipY (snd cv))
      else cv)"

text \<open>The response under \<^verbatim>\<open>if (collision)\<close>, with \<^verbatim>\<open>k = 0.3f\<close>.\<close>

definition respond :: "state \<Rightarrow> bool \<times> vec2 \<Rightarrow> state" where
  "respond s cv =
     (if fst cv
      then s\<lparr>ballVelocity := \<lparr>x = x (snd cv) * 1.05,
                              y = y (snd cv) + 0.3 * nth2 (paddleVelocities s) (candidate s)\<rparr>,
             framesSinceLastCollision := 0\<rparr>
      else s\<lparr>ballVelocity := snd cv\<rparr>)"

definition paddleCollisions :: "state \<Rightarrow> state" where
  "paddleCollisions s =
     (if eligible (framesSinceLastCollision s)
      then (if collisionPossible s then respond s (cornerCheck s (faceCheck s)) else s)
      else s)"

text \<open>Whether the paddle-collision block of a frame ends with its flag set.\<close>

definition detected :: "state \<Rightarrow> bool" where
  "detected s \<longleftrightarrow>
     eligible (framesSinceLastCollision s) \<and> collisionPossible s \<and>
     fst (cornerCheck s (faceCheck s))"

definition integrate :: "real \<Rightarrow> state \<Rightarrow> state" where
  "integrate dt s =
     s\<lparr>paddleOffsets :=
         ((fst (paddleOffsets s))\<lparr>y := y (fst (paddleOffsets s)) + fst (paddleVelocities s) * dt\<rparr>,
          (snd (paddleOffsets s))\<lparr>y := y (snd (paddleOffsets s)) + snd (paddleVelocities s) * dt\<rparr>),
       ballOffset :=
         \<lparr>x = x (ballOffset s) + x (ballVelocity s) * dt,
          y = y (ballOffset s) + y (ballVelocity s) * dt\<rparr>\<rparr>"

section \<open>One iteration of the render loop\<close>

text \<open>The physics of the loop body as one function, statement by statement:
  \<^verbatim>\<open>processInput\<close>, the frame counter, the wall test, the score test and reset, the
  paddle-collision block, and the position updates.\<close>

definition frame :: "keys \<Rightarrow> real \<Rightarrow> state \<Rightarrow> state" where
  "frame k dt s0 =
     (let s1 = processInput k dt s0;
          s2 = (if framesSinceLastCollision s1 \<noteq> - 1
                then s1\<lparr>framesSinceLastCollision := framesSinceLastCollision s1 + 1\<rparr>
                else s1);
          s3 = (if y (ballOffset s2) - ballRadius \<le> 0
                   \<or> y (ballOffset s2) + ballRadius \<ge> toFloat (scrHeight s2)
                then s2\<lparr>ballVelocity := (ballVelocity s2)\<lparr>y := y (ballVelocity s2) * (- 1)\<rparr>\<rparr>
                else s2);
          reset = (if x (ballOffset s3) - ballRadius \<le> 0 then 1
                   else if x (ballOffset s3) + ballRadius \<ge> toFloat (scrWidth s3) then 2
                   else (0 :: nat));
          s4 = (if reset \<noteq> 0
                then s3\<lparr>ballOffset := \<lparr>x = toFloat (scrWidth s3) / 2,
                                        y = toFloat (scrHeight s3) / 2\<rparr>,
                        ballVelocity := \<lparr>x = (if reset = 1 then x (initBallVelocity s3)
                                              else - x (initBallVelocity s3)),
                                         y = y (initBallVelocity s3)\<rparr>\<rparr>
                else s3);
          s5 = (if framesSinceLastCollision s4 \<ge> framesThreshold
                   \<or> framesSinceLastCollision s4 = - 1
                then
                  (if x (distance s4) \<le> halfPaddleWidth + ballRadius \<and>
                      y (distance s4) \<le> halfPaddleHeight + ballRadius
                   then
                     (let cv1 = (if x (distance s4) \<le> halfPaddleWidth \<and>
                                    x (distance s4) \<ge> halfPaddleWidth - ballRadius
                                 then (True, (ballVelocity s4)\<lparr>x := x (ballVelocity s4) * (- 1)\<rparr>)
                                 else if y (distance s4) \<le> halfPaddleHeight \<and>
                                         y (distance s4) \<ge> halfPaddleHeight - ballRadius
                                 then (True, (ballVelocity s4)\<lparr>y := y (ballVelocity s4) * (- 1)\<rparr>)
                                 else (False, ballVelocity s4));
                          cv2 = (if (x (distance s4) - halfPaddleWidth) * (x (distance s4) - halfPaddleWidth) +
                                    (y (distance s4) - halfPaddleHeight) * (y (distance s4) - halfPaddleHeight)
                                      \<le> ballRadius * ballRadius \<and> \<not> fst cv1
                                 then (True,
                                       if y (distance s4) - halfPaddleHeight
                                            \<le> signedDifference s4 - halfPaddleWidth
                                       then (snd cv1)\<lparr>x := x (snd cv1) * (- 1)\<rparr>
                                       else (snd cv1)\<lparr>y := y (snd cv1) * (- 1)\<rparr>)
                                 else cv1)
                      in if fst cv2
                         then s4\<lparr>ballVelocity :=
                                   \<lparr>x = x (snd cv2) * 1.05,
                                    y = y (snd cv2) + 0.3 * nth2 (paddleVelocities s4) (candidate s4)\<rparr>,
                                 framesSinceLastCollision := 0\<rparr>
                         else s4\<lparr>ballVelocity := snd cv2\<rparr>)
                   else s4)
                else s4);
          s6 = s5\<lparr>paddleOffsets :=
                    ((fst (paddleOffsets s5))\<lparr>y := y (fst (paddleOffsets s5))
                                                   + fst (paddleVelocities s5) * dt\<rparr>,
                     (snd (paddleOffsets s5))\<lparr>y := y (snd (paddleOffsets s5))
                                                   + snd (paddleVelocities s5) * dt\<rparr>),
                  ballOffset :=
                    \<lparr>x = x (ballOffset s5) + x (ballVelocity s5) * dt,
                     y = y (ballOffset s5) + y (ballVelocity s5) * dt\<rparr>\<rparr>
      in s6)"

text \<open>A run of frames, each with its keys and its elapsed time.\<close>

fun run :: "(keys \<times> real) list \<Rightarrow> state \<Rightarrow> state" where
  "run [] s = s"
| "run (kd # kds) s = run kds (frame (fst kd) (snd kd) s)"

text \<open>The order of phases the spec gives for a step: input, integration, the collision
  engine (with its counter), scoring.\<close>

definition frame_spec_order :: "keys \<Rightarrow> real \<Rightarrow> state \<Rightarrow> state" where
  "frame_spec_order k dt s =
     scoring (paddleCollisions (wallCollisions (countFrames (integrate dt (processInput k dt s)))))"

text \<open>The state on which the paddle-collision block of a frame works: after the input,
  the counter, the wall test and the score reset of that frame.\<close>

definition prePaddle :: "keys \<Rightarrow> real \<Rightarrow> state \<Rightarrow> state" where
  "prePaddle k dt s = scoring (wallCollisions (countFrames (processInput k dt s)))"

text \<open>The player the score test announces on the console: "Right player point" at the
  left wall, "Left player point" at the right wall.\<close>

datatype scorer = LeftPlayer | RightPlayer

definition scoreEvent :: "state \<Rightarrow> scorer option" where
  "scoreEvent s =
     (if x (ballOffset s) - ballRadius \<le> 0 then Some RightPlayer
      else if x (ballOffset s) + ballRadius \<ge> toFloat (scrWidth s) then Some LeftPlayer
      else None)"

text \<open>Paddle \<open>i\<close> lies within its limits, widened by \<open>e\<close> on both sides.\<close>

definition paddleWithin :: "real \<Rightarrow> state \<Rightarrow> nat \<Rightarrow> bool" where
  "paddleWithin e s i \<longleftrightarrow>
     halfPaddleHeight + ballRadius - e \<le> y (nth2 (paddleOffsets s) i) \<and>
     y (nth2 (paddleOffsets s) i) \<le> toFloat (scrHeight s) - halfPaddleHeight - ballRadius + e"

text \<open>The condition of the corner branch: the corner test holds and the flag is still
  false after the two face tests.\<close>

definition cornerBranch :: "state \<Rightarrow> bool" where
  "cornerBranch s \<longleftrightarrow> cornerCollision s \<and> \<not> fst (faceCheck s)"

text \<open>No frame of the run ends its paddle-collision block with the flag set.\<close>

fun collisionFree :: "(keys \<times> real) list \<Rightarrow> state \<Rightarrow> bool" where
  "collisionFree [] s = True"
| "collisionFree (kd # kds) s =
     (\<not> detected (prePaddle (fst kd) (snd kd) s) \<and> collisionFree kds (frame (fst kd) (snd kd) s))"

text \<open>The key that moves paddle \<open>i\<close> up and the one that moves it down: W and S for the
  left paddle, the arrow keys for the right one.\<close>

definition upKey :: "nat \<Rightarrow> keys \<Rightarrow> bool" where
  "upKey i k = (if i = 0 then keyW k else keyUP k)"

definition downKey :: "nat \<Rightarrow> keys \<Rightarrow> bool" where
  "downKey i k = (if i = 0 then keyS k else keyDOWN k)"

text \<open>The overlap of ball and paddle as geometry, in the words of the spec's cooldown
  property: the disc of the ball meets the rectangle of paddle \<open>i\<close>.\<close>

definition overlaps_spec :: "state \<Rightarrow> nat \<Rightarrow> bool" where
  "overlaps_spec s i \<longleftrightarrow>
     (let ex = max (\<bar>x (ballOffset s) - x (nth2 (paddleOffsets s) i)\<bar> - halfPaddleWidth) 0;
          ey = max (\<bar>y (ballOffset s) - y (nth2 (paddleOffsets s) i)\<bar> - halfPaddleHeight) 0
      in ex * ex + ey * ey \<le> ballRadius * ballRadius)"

text \<open>The signed difference as the spec words it: negated exactly when the candidate
  paddle lies to the left of the ball.\<close>

definition signedDifference_spec :: "state \<Rightarrow> real" where
  "signedDifference_spec s =
     (let d = x (nth2 (paddleOffsets s) (candidate s)) - x (ballOffset s)
      in if x (nth2 (paddleOffsets s) (candidate s)) < x (ballOffset s) then d * (- 1) else d)"

text \<open>The default window with the paddles at their initial places and the ball at the
  centre of the screen.\<close>

definition centred :: "state \<Rightarrow> bool" where
  "centred s \<longleftrightarrow>
     scrWidth s = 800 \<and> scrHeight s = 600 \<and>
     paddleOffsets s = (\<lparr>x = 35, y = 300\<rparr>, \<lparr>x = 765, y = 300\<rparr>) \<and>
     ballOffset s = \<lparr>x = 400, y = 300\<rparr>"

section \<open>Concrete inputs and states\<close>

definition noKeys :: keys where
  "noKeys = \<lparr>keyW = False, keyS = False, keyUP = False, keyDOWN = False\<rparr>"

definition upKeys :: keys where
  "upKeys = \<lparr>keyW = True, keyS = False, keyUP = False, keyDOWN = False\<rparr>"

text \<open>A state of the default 800 by 600 window with the ball at x = 350, left of the
  middle of the screen width and right of half the screen height.\<close>

definition selState :: state where
  "selState = initState\<lparr>ballOffset := \<lparr>x = 350, y = 300\<rparr>\<rparr>"

text \<open>The ball close to the right bound, not yet touching it.\<close>

definition nearRightState :: state where
  "nearRightState = initState\<lparr>ballOffset := \<lparr>x = 790, y = 300\<rparr>\<rparr>"

text \<open>The ball across the right bound: 795 + 8 is at least 800.\<close>

definition rightCrossState :: state where
  "rightCrossState = initState\<lparr>ballOffset := \<lparr>x = 795, y = 300\<rparr>\<rparr>"

text \<open>The ball across the left bound.\<close>

definition leftCrossState :: state where
  "leftCrossState = initState\<lparr>ballOffset := \<lparr>x = 5, y = 300\<rparr>\<rparr>"

text \<open>The counter one below the largest 32-bit value, the ball in the middle of the
  screen, far from both paddles.\<close>

definition lateState :: state where
  "lateState = initState\<lparr>framesSinceLastCollision := 4294967294\<rparr>"

text \<open>The ball 3 pixels right of the centre of the left paddle, at its height.\<close>

definition hitState :: state where
  "hitState = initState\<lparr>ballOffset := \<lparr>x = 38, y = 300\<rparr>\<rparr>"

text \<open>The ball at the upper right corner of the left paddle: 10 pixels right of and
  52 pixels above its centre.\<close>

definition cornerState :: state where
  "cornerState = initState\<lparr>ballOffset := \<lparr>x = 45, y = 352\<rparr>\<rparr>"

text \<open>The left paddle 2 pixels above its upper limit 542, the right paddle 2 pixels
  below its lower limit 58.\<close>

definition edgeState :: state where
  "edgeState = initState\<lparr>paddleOffsets := (\<lparr>x = 35, y = 544\<rparr>, \<lparr>x = 765, y = 56\<rparr>)\<rparr>"

text \<open>W and the down arrow held.\<close>

definition edgeKeys :: keys where
  "edgeKeys = \<lparr>keyW = True, keyS = False, keyUP = False, keyDOWN = True\<rparr>"

text \<open>The ball moving left, its centre 10 pixels right of the centre of the left paddle
  and at its height: the disc reaches 3 pixels into the paddle.\<close>

definition overlapState :: state where
  "overlapState = initState\<lparr>ballOffset := \<lparr>x = 45, y = 300\<rparr>, ballVelocity := \<lparr>x = - 150, y = 150\<rparr>\<rparr>"

text \<open>The ball behind the left paddle, at its upper left corner: 10 pixels left of and
  52 pixels above its centre.\<close>

definition backState :: state where
  "backState = initState\<lparr>ballOffset := \<lparr>x = 25, y = 352\<rparr>, ballVelocity := \<lparr>x = - 150, y = 150\<rparr>\<rparr>"

section \<open>Basic facts\<close>

text \<open>
  The loop body is the composition of its statement groups. Each inline lemma folds one
  group of the body into its phase function.
\<close>

lemma countFrames_inline:
  "(if framesSinceLastCollision s \<noteq> - 1
    then s\<lparr>framesSinceLastCollision := framesSinceLastCollision s + 1\<rparr>
    else s) = countFrames s"
  by (simp only: countFrames_def)

lemma wallCollisions_inline:
  "(if y (ballOffset s) - ballRadius \<le> 0
       \<or> y (ballOffset s) + ballRadius \<ge> toFloat (scrHeight s)
    then s\<lparr>ballVelocity := (ballVelocity s)\<lparr>y := y (ballVelocity s) * (- 1)\<rparr>\<rparr>
    else s) = wallCollisions s"
  by (simp only: wallCollisions_def)

lemma scoring_inline:
  "(let reset = (if x (ballOffset s) - ballRadius \<le> 0 then 1
                 else if x (ballOffset s) + ballRadius \<ge> toFloat (scrWidth s) then 2
                 else (0 :: nat));
        s4 = (if reset \<noteq> 0
              then s\<lparr>ballOffset := \<lparr>x = toFloat (scrWidth s) / 2,
                                     y = toFloat (scrHeight s) / 2\<rparr>,
                     ballVelocity := \<lparr>x = (if reset = 1 then x (initBallVelocity s)
                                           else - x (initBallVelocity s)),
                                      y = y (initBallVelocity s)\<rparr>\<rparr>
              else s)
    in G s4) = G (scoring s)"
  by (simp only: scoring_def resetCode_def Let_def)

lemma paddleCollisions_inline:
  "(if framesSinceLastCollision s4 \<ge> framesThreshold
                   \<or> framesSinceLastCollision s4 = - 1
                then
                  (if x (distance s4) \<le> halfPaddleWidth + ballRadius \<and>
                      y (distance s4) \<le> halfPaddleHeight + ballRadius
                   then
                     (let cv1 = (if x (distance s4) \<le> halfPaddleWidth \<and>
                                    x (distance s4) \<ge> halfPaddleWidth - ballRadius
                                 then (True, (ballVelocity s4)\<lparr>x := x (ballVelocity s4) * (- 1)\<rparr>)
                                 else if y (distance s4) \<le> halfPaddleHeight \<and>
                                         y (distance s4) \<ge> halfPaddleHeight - ballRadius
                                 then (True, (ballVelocity s4)\<lparr>y := y (ballVelocity s4) * (- 1)\<rparr>)
                                 else (False, ballVelocity s4));
                          cv2 = (if (x (distance s4) - halfPaddleWidth) * (x (distance s4) - halfPaddleWidth) +
                                    (y (distance s4) - halfPaddleHeight) * (y (distance s4) - halfPaddleHeight)
                                      \<le> ballRadius * ballRadius \<and> \<not> fst cv1
                                 then (True,
                                       if y (distance s4) - halfPaddleHeight
                                            \<le> signedDifference s4 - halfPaddleWidth
                                       then (snd cv1)\<lparr>x := x (snd cv1) * (- 1)\<rparr>
                                       else (snd cv1)\<lparr>y := y (snd cv1) * (- 1)\<rparr>)
                                 else cv1)
                      in if fst cv2
                         then s4\<lparr>ballVelocity :=
                                   \<lparr>x = x (snd cv2) * 1.05,
                                    y = y (snd cv2) + 0.3 * nth2 (paddleVelocities s4) (candidate s4)\<rparr>,
                                 framesSinceLastCollision := 0\<rparr>
                         else s4\<lparr>ballVelocity := snd cv2\<rparr>)
                   else s4)
                else s4) = paddleCollisions s4"
  by (simp only: paddleCollisions_def respond_def cornerCheck_def faceCheck_def eligible_def
    collisionPossible_def lengthCollision_def widthCollision_def cornerCollision_def
    flipX_def flipY_def Let_def)

lemma integrate_inline:
  "s5\<lparr>paddleOffsets :=
                    ((fst (paddleOffsets s5))\<lparr>y := y (fst (paddleOffsets s5))
                                                   + fst (paddleVelocities s5) * dt\<rparr>,
                     (snd (paddleOffsets s5))\<lparr>y := y (snd (paddleOffsets s5))
                                                   + snd (paddleVelocities s5) * dt\<rparr>),
                  ballOffset :=
                    \<lparr>x = x (ballOffset s5) + x (ballVelocity s5) * dt,
                     y = y (ballOffset s5) + y (ballVelocity s5) * dt\<rparr>\<rparr> = integrate dt s5"
  by (simp only: integrate_def)

lemma frame_phases:
  "frame k dt s =
     integrate dt (paddleCollisions (scoring (wallCollisions (countFrames (processInput k dt s)))))"
  unfolding frame_def countFrames_inline wallCollisions_inline paddleCollisions_inline
    integrate_inline
  apply (subst scoring_inline)
  apply (simp only: Let_def)
  done

lemmas expr_defs = eligible_def collisionPossible_def lengthCollision_def widthCollision_def
  cornerCollision_def distance_def candidate_def signedDifference_def flipX_def flipY_def
  nth2_def upd2_def toFloat_def

lemmas phase_defs = processInput_def pressUp_def pressDown_def countFrames_def
  wallCollisions_def scoring_def resetCode_def paddleCollisions_def respond_def
  cornerCheck_def faceCheck_def integrate_def

lemmas const_defs = paddleSpeed_def paddleHeight_def halfPaddleHeight_def paddleWidth_def
  halfPaddleWidth_def ballDiameter_def ballRadius_def offset_def paddleBoundary_def
  framesThreshold_def

lemmas state_defs = initState_def noKeys_def upKeys_def selState_def nearRightState_def
  rightCrossState_def leftCrossState_def lateState_def hitState_def cornerState_def

text \<open>
  What each phase leaves unchanged.
\<close>

lemma pressUp_keeps [simp]:
  "ballOffset (pressUp i s) = ballOffset s"
  "ballVelocity (pressUp i s) = ballVelocity s"
  "initBallVelocity (pressUp i s) = initBallVelocity s"
  "framesSinceLastCollision (pressUp i s) = framesSinceLastCollision s"
  "scrWidth (pressUp i s) = scrWidth s"
  "scrHeight (pressUp i s) = scrHeight s"
  by (simp_all add: pressUp_def)

lemma pressDown_keeps [simp]:
  "ballOffset (pressDown i s) = ballOffset s"
  "ballVelocity (pressDown i s) = ballVelocity s"
  "initBallVelocity (pressDown i s) = initBallVelocity s"
  "framesSinceLastCollision (pressDown i s) = framesSinceLastCollision s"
  "scrWidth (pressDown i s) = scrWidth s"
  "scrHeight (pressDown i s) = scrHeight s"
  by (simp_all add: pressDown_def)

lemma processInput_keeps [simp]:
  "ballOffset (processInput k dt s) = ballOffset s"
  "ballVelocity (processInput k dt s) = ballVelocity s"
  "initBallVelocity (processInput k dt s) = initBallVelocity s"
  "framesSinceLastCollision (processInput k dt s) = framesSinceLastCollision s"
  "scrWidth (processInput k dt s) = scrWidth s"
  "scrHeight (processInput k dt s) = scrHeight s"
  by (simp_all add: processInput_def Let_def)

lemma countFrames_keeps [simp]:
  "ballOffset (countFrames s) = ballOffset s"
  "ballVelocity (countFrames s) = ballVelocity s"
  "initBallVelocity (countFrames s) = initBallVelocity s"
  "paddleOffsets (countFrames s) = paddleOffsets s"
  "paddleVelocities (countFrames s) = paddleVelocities s"
  "scrWidth (countFrames s) = scrWidth s"
  "scrHeight (countFrames s) = scrHeight s"
  by (simp_all add: countFrames_def)

lemma wallCollisions_keeps [simp]:
  "ballOffset (wallCollisions s) = ballOffset s"
  "x (ballVelocity (wallCollisions s)) = x (ballVelocity s)"
  "initBallVelocity (wallCollisions s) = initBallVelocity s"
  "paddleOffsets (wallCollisions s) = paddleOffsets s"
  "paddleVelocities (wallCollisions s) = paddleVelocities s"
  "framesSinceLastCollision (wallCollisions s) = framesSinceLastCollision s"
  "scrWidth (wallCollisions s) = scrWidth s"
  "scrHeight (wallCollisions s) = scrHeight s"
  by (simp_all add: wallCollisions_def)

lemma scoring_keeps [simp]:
  "initBallVelocity (scoring s) = initBallVelocity s"
  "paddleOffsets (scoring s) = paddleOffsets s"
  "paddleVelocities (scoring s) = paddleVelocities s"
  "framesSinceLastCollision (scoring s) = framesSinceLastCollision s"
  "scrWidth (scoring s) = scrWidth s"
  "scrHeight (scoring s) = scrHeight s"
  by (simp_all add: scoring_def)

lemma paddleCollisions_keeps [simp]:
  "ballOffset (paddleCollisions s) = ballOffset s"
  "initBallVelocity (paddleCollisions s) = initBallVelocity s"
  "paddleOffsets (paddleCollisions s) = paddleOffsets s"
  "paddleVelocities (paddleCollisions s) = paddleVelocities s"
  "scrWidth (paddleCollisions s) = scrWidth s"
  "scrHeight (paddleCollisions s) = scrHeight s"
  by (simp_all add: paddleCollisions_def respond_def)

lemma integrate_keeps [simp]:
  "ballVelocity (integrate dt s) = ballVelocity s"
  "initBallVelocity (integrate dt s) = initBallVelocity s"
  "paddleVelocities (integrate dt s) = paddleVelocities s"
  "framesSinceLastCollision (integrate dt s) = framesSinceLastCollision s"
  "scrWidth (integrate dt s) = scrWidth s"
  "scrHeight (integrate dt s) = scrHeight s"
  by (simp_all add: integrate_def)

text \<open>
  The paddle-collision block, by cases of its guard and its flag.
\<close>

lemma paddleCollisions_skip:
  "\<not> eligible (framesSinceLastCollision s) \<Longrightarrow> paddleCollisions s = s"
  by (simp add: paddleCollisions_def)

lemma paddleCollisions_detected:
  "detected s \<Longrightarrow> paddleCollisions s =
     s\<lparr>ballVelocity := \<lparr>x = x (snd (cornerCheck s (faceCheck s))) * 1.05,
                         y = y (snd (cornerCheck s (faceCheck s)))
                             + 0.3 * nth2 (paddleVelocities s) (candidate s)\<rparr>,
       framesSinceLastCollision := 0\<rparr>"
  by (simp add: paddleCollisions_def detected_def respond_def)

lemma checks_no_flag:
  "\<not> fst (cornerCheck s (faceCheck s)) \<Longrightarrow> snd (cornerCheck s (faceCheck s)) = ballVelocity s"
  by (auto simp add: cornerCheck_def faceCheck_def split: if_splits)

lemma paddleCollisions_undetected:
  "\<not> detected s \<Longrightarrow> paddleCollisions s = s"
  by (auto simp add: paddleCollisions_def detected_def respond_def checks_no_flag)

lemma detected_iff:
  "detected s \<longleftrightarrow>
     eligible (framesSinceLastCollision s) \<and> collisionPossible s \<and>
     (lengthCollision s \<or> widthCollision s \<or> cornerCollision s)"
  by (auto simp add: detected_def cornerCheck_def faceCheck_def)

lemma checked_velocity:
  "snd (cornerCheck s (faceCheck s)) = ballVelocity s \<or>
   snd (cornerCheck s (faceCheck s)) = flipX (ballVelocity s) \<or>
   snd (cornerCheck s (faceCheck s)) = flipY (ballVelocity s)"
  by (simp add: cornerCheck_def faceCheck_def)

lemma checked_velocity_abs:
  "\<bar>x (snd (cornerCheck s (faceCheck s)))\<bar> = \<bar>x (ballVelocity s)\<bar>"
  using checked_velocity [of s] by (auto simp add: flipX_def flipY_def)

lemma frame_counter:
  "framesSinceLastCollision (frame k dt s) =
     framesSinceLastCollision (paddleCollisions (prePaddle k dt s))"
  by (simp add: frame_phases prePaddle_def)

lemma frame_velocity:
  "ballVelocity (frame k dt s) = ballVelocity (paddleCollisions (prePaddle k dt s))"
  by (simp add: frame_phases prePaddle_def)

lemma frame_prePaddle:
  "frame k dt s = integrate dt (paddleCollisions (prePaddle k dt s))"
  by (simp add: frame_phases prePaddle_def)

lemma prePaddle_counter:
  "framesSinceLastCollision (prePaddle k dt s) =
     (if framesSinceLastCollision s \<noteq> - 1 then framesSinceLastCollision s + 1
      else framesSinceLastCollision s)"
  by (simp add: prePaddle_def countFrames_def)

lemma frame_quiet_counter:
  assumes "\<not> detected (prePaddle k dt s)"
  shows "framesSinceLastCollision (frame k dt s) =
         (if framesSinceLastCollision s \<noteq> - 1 then framesSinceLastCollision s + 1 else - 1)"
  using assms by (simp add: frame_counter paddleCollisions_undetected prePaddle_counter)

lemma frame_hit_counter:
  assumes "detected (prePaddle k dt s)"
  shows "framesSinceLastCollision (frame k dt s) = 0"
  using assms by (simp add: frame_counter paddleCollisions_detected)

text \<open>
  The frame counter as an unsigned number.
\<close>

lemma unat_sentinel: "unat (- 1 :: 32 word) = 4294967295"
  by (simp add: unsigned_minus_1_eq_mask mask_eq_exp_minus_1)

lemma counter_succ:
  fixes c :: "32 word"
  assumes "c \<noteq> - 1"
  shows "unat (c + 1) = unat c + 1"
proof -
  have "c + 1 \<noteq> 0"
    using assms by (metis add.commute add_eq_0_iff)
  then have "1 + c \<noteq> 0" by (simp add: add.commute)
  then have "unat (1 + c) = Suc (unat c)" by (rule unatSuc)
  then show ?thesis by (simp add: add.commute)
qed

lemma sentinel_iff:
  fixes c :: "32 word"
  shows "c = - 1 \<longleftrightarrow> unat c = 4294967295"
proof
  assume "c = - 1" then show "unat c = 4294967295" by (simp add: unat_sentinel)
next
  assume "unat c = 4294967295"
  then have "unat c = unat (- 1 :: 32 word)" by (simp add: unat_sentinel)
  then show "c = - 1" by (simp only: word_unat_eq_iff)
qed

lemma sentinel_ge_threshold: "framesThreshold \<le> (- 1 :: 32 word)"
  by (simp add: framesThreshold_def)

lemma eligible_unat: "eligible c \<longleftrightarrow> 10 \<le> unat c"
proof -
  have "unat (framesThreshold) = 10" by (simp add: framesThreshold_def)
  then show ?thesis
    by (auto simp add: eligible_def word_le_nat_alt unat_sentinel)
qed

section \<open>Paddle selection\<close>

text \<open>
  C1. The spec selects the right paddle exactly when the ball is right of half the screen
  width. The source compares the ball's x position with half the screen height: with the
  ball at x = 350 in the 800 by 600 window the source selects the right paddle (index 1),
  although 350 is not greater than 400.
\<close>

theorem candidate_uses_screen_height:
  "candidate selState = 1 \<and> candidate_spec selState = 0 \<and>
   \<not> x (ballOffset selState) > toFloat (scrWidth selState) / 2"
  by (simp add: candidate_def candidate_spec_def selState_def initState_def toFloat_def)

section \<open>The order of the phases\<close>

text \<open>
  C2, as stated, fails. With the ball at x = 790 moving right at 150 pixels per second and
  a frame of a tenth of a second, the source tests the score before it moves the ball: the
  ball ends the frame at x = 805. In the order the spec gives (integration first, scoring
  last) the same frame ends with the ball reset to the centre (400, 300).
\<close>

theorem frame_not_spec_order:
  "ballOffset (frame noKeys (1/10) nearRightState) = \<lparr>x = 805, y = 315\<rparr> \<and>
   ballOffset (frame_spec_order noKeys (1/10) nearRightState) = \<lparr>x = 400, y = 300\<rparr> \<and>
   frame noKeys (1/10) nearRightState \<noteq> frame_spec_order noKeys (1/10) nearRightState"
proof -
  have a: "ballOffset (frame noKeys (1/10) nearRightState) = \<lparr>x = 805, y = 315\<rparr>"
    by (simp add: frame_phases phase_defs expr_defs const_defs Let_def state_defs)
  have b: "ballOffset (frame_spec_order noKeys (1/10) nearRightState) = \<lparr>x = 400, y = 300\<rparr>"
    by (simp add: frame_spec_order_def phase_defs expr_defs const_defs Let_def state_defs)
  from a b have "ballOffset (frame noKeys (1/10) nearRightState)
      \<noteq> ballOffset (frame_spec_order noKeys (1/10) nearRightState)"
    by simp
  then have "frame noKeys (1/10) nearRightState \<noteq> frame_spec_order noKeys (1/10) nearRightState"
    by metis
  with a b show ?thesis by simp
qed

text \<open>
  C2, amended. Every frame performs its phases in the fixed order: input (with the
  boundary clamp), the frame counter, the wall test, the score test and reset, the
  paddle-collision block, and last the integration of the positions. Scoring is evaluated
  after the wall test and before the paddle-collision block; integration comes after all
  collision detection.
\<close>

theorem frame_phase_order:
  "frame k dt = integrate dt \<circ> paddleCollisions \<circ> scoring \<circ> wallCollisions \<circ> countFrames
                  \<circ> processInput k dt"
  by (rule ext) (simp add: frame_phases)

section \<open>Scoring\<close>

text \<open>
  C9. On every score event the scoring phase puts the ball at the centre of the screen,
  sets its x velocity to the initial x speed when the right player scored and to its
  negation when the left player scored, and sets its y velocity to the initial y speed.
\<close>

theorem scoring_reset:
  assumes "scoreEvent s = Some p"
  shows "ballOffset (scoring s) = \<lparr>x = toFloat (scrWidth s) / 2, y = toFloat (scrHeight s) / 2\<rparr> \<and>
         x (ballVelocity (scoring s)) =
           (if p = RightPlayer then x (initBallVelocity s) else - x (initBallVelocity s)) \<and>
         y (ballVelocity (scoring s)) = y (initBallVelocity s)"
  using assms by (auto simp add: scoreEvent_def scoring_def resetCode_def split: if_splits)

text \<open>
  The ball across the left bound: the right player scores, the ball is reset to
  (400, 300) with velocity (150, 150).
\<close>

theorem scoring_reset_witness:
  "scoreEvent leftCrossState = Some RightPlayer \<and>
   ballOffset (scoring leftCrossState) = \<lparr>x = 400, y = 300\<rparr> \<and>
   ballVelocity (scoring leftCrossState) = \<lparr>x = 150, y = 150\<rparr>"
proof -
  have h: "scoreEvent leftCrossState = Some RightPlayer"
    by (simp add: scoreEvent_def state_defs const_defs toFloat_def)
  have w: "toFloat (scrWidth leftCrossState) = 800" "toFloat (scrHeight leftCrossState) = 600"
    "initBallVelocity leftCrossState = \<lparr>x = 150, y = 150\<rparr>"
    by (simp_all add: state_defs toFloat_def)
  have "ballVelocity (scoring leftCrossState) = \<lparr>x = 150, y = 150\<rparr>"
    using scoring_reset [OF h] by (simp add: w vec2.equality)
  with h scoring_reset [OF h] show ?thesis by (simp add: w)
qed

text \<open>
  C3, as stated, fails. The reset is followed, in the same frame, by the integration of
  the positions: with the ball at x = 795 (so 795 + 8 is at least 800) and a frame of a
  tenth of a second, the ball ends the frame at (385, 315), not at the centre (400, 300).
\<close>

theorem right_score_not_centre:
  "x (ballOffset rightCrossState) + ballRadius \<ge> toFloat (scrWidth rightCrossState) \<and>
   ballOffset (frame noKeys (1/10) rightCrossState) = \<lparr>x = 385, y = 315\<rparr> \<and>
   ballOffset (frame noKeys (1/10) rightCrossState)
     \<noteq> \<lparr>x = toFloat (scrWidth rightCrossState) / 2, y = toFloat (scrHeight rightCrossState) / 2\<rparr>"
  by (simp add: frame_phases phase_defs expr_defs const_defs Let_def state_defs)

lemma scoring_right:
  assumes "x (ballOffset s) + ballRadius \<ge> toFloat (scrWidth s)" "0 < x (ballOffset s) - ballRadius"
  shows "ballOffset (scoring s) = \<lparr>x = toFloat (scrWidth s) / 2, y = toFloat (scrHeight s) / 2\<rparr>"
    and "ballVelocity (scoring s) = \<lparr>x = - x (initBallVelocity s), y = y (initBallVelocity s)\<rparr>"
  using assms by (simp_all add: scoring_def resetCode_def)

text \<open>
  C3, amended. When the ball is across the right bound and not across the left one, the
  score reset of that frame puts the ball at exactly the centre with velocity
  (- initial x, + initial y); the position after the frame is the centre plus the frame time
  times the velocity after the frame, and that velocity is (- initial x, + initial y)
  whenever the paddle-collision block detects no collision at the centre.
\<close>

theorem right_score_step:
  assumes "x (ballOffset s) + ballRadius \<ge> toFloat (scrWidth s)"
    and "0 < x (ballOffset s) - ballRadius"
  shows "ballOffset (prePaddle k dt s) =
           \<lparr>x = toFloat (scrWidth s) / 2, y = toFloat (scrHeight s) / 2\<rparr> \<and>
         ballVelocity (prePaddle k dt s) =
           \<lparr>x = - x (initBallVelocity s), y = y (initBallVelocity s)\<rparr> \<and>
         ballOffset (frame k dt s) =
           \<lparr>x = toFloat (scrWidth s) / 2 + x (ballVelocity (frame k dt s)) * dt,
            y = toFloat (scrHeight s) / 2 + y (ballVelocity (frame k dt s)) * dt\<rparr> \<and>
         (\<not> detected (prePaddle k dt s) \<longrightarrow>
            ballVelocity (frame k dt s) =
              \<lparr>x = - x (initBallVelocity s), y = y (initBallVelocity s)\<rparr>)"
proof -
  let ?w = "wallCollisions (countFrames (processInput k dt s))"
  have h1: "x (ballOffset ?w) + ballRadius \<ge> toFloat (scrWidth ?w)"
    and h2: "0 < x (ballOffset ?w) - ballRadius"
    using assms by simp_all
  have po: "ballOffset (prePaddle k dt s) =
      \<lparr>x = toFloat (scrWidth s) / 2, y = toFloat (scrHeight s) / 2\<rparr>"
    unfolding prePaddle_def using scoring_right(1) [OF h1 h2] by simp
  have pv: "ballVelocity (prePaddle k dt s) =
      \<lparr>x = - x (initBallVelocity s), y = y (initBallVelocity s)\<rparr>"
    unfolding prePaddle_def using scoring_right(2) [OF h1 h2] by simp
  have fr: "frame k dt s = integrate dt (paddleCollisions (prePaddle k dt s))"
    by (simp add: frame_phases prePaddle_def)
  have fo: "ballOffset (frame k dt s) =
      \<lparr>x = toFloat (scrWidth s) / 2 + x (ballVelocity (frame k dt s)) * dt,
       y = toFloat (scrHeight s) / 2 + y (ballVelocity (frame k dt s)) * dt\<rparr>"
    unfolding fr by (simp add: integrate_def po)
  have fv: "\<not> detected (prePaddle k dt s) \<longrightarrow>
      ballVelocity (frame k dt s) = \<lparr>x = - x (initBallVelocity s), y = y (initBallVelocity s)\<rparr>"
    unfolding fr by (simp add: paddleCollisions_undetected pv)
  from po pv fo fv show ?thesis by blast
qed

text \<open>
  The frame of a tenth of a second from the ball at x = 795.
\<close>

theorem right_score_step_witness:
  "x (ballOffset rightCrossState) + ballRadius \<ge> toFloat (scrWidth rightCrossState) \<and>
   0 < x (ballOffset rightCrossState) - ballRadius \<and>
   \<not> detected (prePaddle noKeys (1/10) rightCrossState) \<and>
   ballVelocity (frame noKeys (1/10) rightCrossState) = \<lparr>x = - 150, y = 150\<rparr> \<and>
   ballOffset (frame noKeys (1/10) rightCrossState) = \<lparr>x = 400 + (- 150) * (1/10), y = 300 + 150 * (1/10)\<rparr>"
proof -
  have h1: "x (ballOffset rightCrossState) + ballRadius \<ge> toFloat (scrWidth rightCrossState)"
    by (simp add: state_defs const_defs toFloat_def)
  have h2: "0 < x (ballOffset rightCrossState) - ballRadius"
    by (simp add: state_defs const_defs)
  have w: "toFloat (scrWidth rightCrossState) = 800" "toFloat (scrHeight rightCrossState) = 600"
    "initBallVelocity rightCrossState = \<lparr>x = 150, y = 150\<rparr>"
    by (simp_all add: state_defs toFloat_def)
  note r = right_score_step [OF h1 h2, of noKeys "1/10"]
  have nd: "\<not> detected (prePaddle noKeys (1/10) rightCrossState)"
    by (simp add: detected_def prePaddle_def phase_defs expr_defs const_defs Let_def state_defs)
  from r nd have v: "ballVelocity (frame noKeys (1/10) rightCrossState) = \<lparr>x = - 150, y = 150\<rparr>"
    by (simp add: w)
  from r have "ballOffset (frame noKeys (1/10) rightCrossState) =
      \<lparr>x = 400 + (- 150) * (1/10), y = 300 + 150 * (1/10)\<rparr>"
    by (simp add: w v)
  with h1 h2 nd v show ?thesis by blast
qed

section \<open>The paddle limits\<close>

text \<open>
  C4, as stated, fails. From the initial state, with W held for a frame of two seconds,
  the left paddle moves from y = 300 to y = 600, beyond its upper limit 600 - 50 - 8 = 542:
  the clamp of the input phase acts before the integration of the same frame.
\<close>

theorem paddle_overshoots_limit:
  "(0::real) \<le> 2 \<and>
   y (fst (paddleOffsets (frame upKeys 2 initState))) = 600 \<and>
   toFloat (scrHeight (frame upKeys 2 initState)) - halfPaddleHeight - ballRadius = 542 \<and>
   \<not> paddleWithin 0 (frame upKeys 2 initState) 0"
  by (simp add: frame_phases phase_defs expr_defs const_defs Let_def state_defs paddleWithin_def)

lemma frame_paddles:
  "paddleOffsets (frame k dt s) = paddleOffsets (integrate dt (processInput k dt s))"
  "scrHeight (frame k dt s) = scrHeight s"
  by (simp_all add: frame_phases integrate_def)

lemma frame_paddle:
  "y (nth2 (paddleOffsets (frame k dt s)) i) =
     y (nth2 (paddleOffsets (processInput k dt s)) i)
       + nth2 (paddleVelocities (processInput k dt s)) i * dt"
  by (simp add: frame_phases integrate_def nth2_def)

lemma press_same:
  "y (nth2 (paddleOffsets (pressUp i s)) i) =
     (if y (nth2 (paddleOffsets s) i) < toFloat (scrHeight s) - paddleBoundary
      then y (nth2 (paddleOffsets s) i) else toFloat (scrHeight s) - paddleBoundary)"
  "nth2 (paddleVelocities (pressUp i s)) i =
     (if y (nth2 (paddleOffsets s) i) < toFloat (scrHeight s) - paddleBoundary
      then paddleSpeed else nth2 (paddleVelocities s) i)"
  "y (nth2 (paddleOffsets (pressDown i s)) i) =
     (if y (nth2 (paddleOffsets s) i) > paddleBoundary
      then y (nth2 (paddleOffsets s) i) else paddleBoundary)"
  "nth2 (paddleVelocities (pressDown i s)) i =
     (if y (nth2 (paddleOffsets s) i) > paddleBoundary
      then - paddleSpeed else nth2 (paddleVelocities s) i)"
  by (simp_all add: pressUp_def pressDown_def nth2_def upd2_def)

lemma press_other:
  "(i = 0) \<noteq> (j = 0) \<Longrightarrow> nth2 (paddleOffsets (pressUp j s)) i = nth2 (paddleOffsets s) i"
  "(i = 0) \<noteq> (j = 0) \<Longrightarrow> nth2 (paddleVelocities (pressUp j s)) i = nth2 (paddleVelocities s) i"
  "(i = 0) \<noteq> (j = 0) \<Longrightarrow> nth2 (paddleOffsets (pressDown j s)) i = nth2 (paddleOffsets s) i"
  "(i = 0) \<noteq> (j = 0) \<Longrightarrow> nth2 (paddleVelocities (pressDown j s)) i = nth2 (paddleVelocities s) i"
  by (auto simp add: pressUp_def pressDown_def nth2_def upd2_def)

text \<open>
  The two key blocks of one paddle: its position and its velocity after the input phase
  and its position after the frame.
\<close>

lemma two_blocks:
  assumes "nth2 (paddleVelocities s) i = 0"
    and "u = (if up then pressUp i s else s)"
    and "t = (if down then pressDown i u else u)"
    and "y0 = y (nth2 (paddleOffsets s) i)"
    and "hi = toFloat (scrHeight s) - paddleBoundary"
    and "y1 = (if up \<and> \<not> y0 < hi then hi else y0)"
  shows "y (nth2 (paddleOffsets t) i) = (if down \<and> \<not> paddleBoundary < y1 then paddleBoundary else y1)"
    and "nth2 (paddleVelocities t) i =
           (if down \<and> paddleBoundary < y1 then - paddleSpeed
            else if up \<and> y0 < hi then paddleSpeed else 0)"
proof -
  have a: "y (nth2 (paddleOffsets u) i) = y1"
    by (simp add: assms(2,4,5,6) press_same)
  have b: "nth2 (paddleVelocities u) i = (if up \<and> y0 < hi then paddleSpeed else 0)"
    by (simp add: assms(1,2,4,5) press_same)
  show "y (nth2 (paddleOffsets t) i) = (if down \<and> \<not> paddleBoundary < y1 then paddleBoundary else y1)"
    by (simp add: assms(3) press_same a)
  show "nth2 (paddleVelocities t) i =
           (if down \<and> paddleBoundary < y1 then - paddleSpeed
            else if up \<and> y0 < hi then paddleSpeed else 0)"
    by (simp add: assms(3) press_same a b)
qed

lemma processInput_paddle:
  assumes "y0 = y (nth2 (paddleOffsets s) i)"
    and "hi = toFloat (scrHeight s) - paddleBoundary"
    and "y1 = (if upKey i k \<and> \<not> y0 < hi then hi else y0)"
  shows "y (nth2 (paddleOffsets (processInput k dt s)) i) =
           (if downKey i k \<and> \<not> paddleBoundary < y1 then paddleBoundary else y1)"
    and "nth2 (paddleVelocities (processInput k dt s)) i =
           (if downKey i k \<and> paddleBoundary < y1 then - paddleSpeed
            else if upKey i k \<and> y0 < hi then paddleSpeed else 0)"
proof -
  define s1 where "s1 = s\<lparr>paddleVelocities := (0, 0)\<rparr>"
  define s2 where "s2 = (if keyW k then pressUp 0 s1 else s1)"
  define s3 where "s3 = (if keyS k then pressDown 0 s2 else s2)"
  define s4 where "s4 = (if keyUP k then pressUp 1 s3 else s3)"
  define s5 where "s5 = (if keyDOWN k then pressDown 1 s4 else s4)"
  have p: "processInput k dt s = s5"
    by (simp add: processInput_def Let_def s1_def s2_def s3_def s4_def s5_def)
  have both: "y (nth2 (paddleOffsets s5) i) =
           (if downKey i k \<and> \<not> paddleBoundary < y1 then paddleBoundary else y1) \<and>
        nth2 (paddleVelocities s5) i =
           (if downKey i k \<and> paddleBoundary < y1 then - paddleSpeed
            else if upKey i k \<and> y0 < hi then paddleSpeed else 0)"
  proof (cases "i = 0")
    case True
    have e: "nth2 (paddleOffsets s5) 0 = nth2 (paddleOffsets s3) 0"
      "nth2 (paddleVelocities s5) 0 = nth2 (paddleVelocities s3) 0"
      by (simp_all add: s5_def s4_def press_other)
    have h: "nth2 (paddleVelocities s1) 0 = 0"
      "y0 = y (nth2 (paddleOffsets s1) 0)" "hi = toFloat (scrHeight s1) - paddleBoundary"
      "y1 = (if keyW k \<and> \<not> y0 < hi then hi else y0)"
      using assms True by (simp_all add: s1_def nth2_def upKey_def)
    from two_blocks [OF h(1) s2_def s3_def h(2,3,4)] show ?thesis
      using True by (simp add: e upKey_def downKey_def)
  next
    case False
    have n: "\<And>p. nth2 p i = nth2 p (Suc 0)"
      using False by (simp add: nth2_def)
    have h1: "scrHeight s1 = scrHeight s"
      "nth2 (paddleOffsets s1) (Suc 0) = nth2 (paddleOffsets s) (Suc 0)"
      "nth2 (paddleVelocities s1) (Suc 0) = 0"
      by (simp_all add: s1_def nth2_def)
    have h3: "scrHeight s3 = scrHeight s"
      "nth2 (paddleOffsets s3) (Suc 0) = nth2 (paddleOffsets s) (Suc 0)"
      "nth2 (paddleVelocities s3) (Suc 0) = 0"
      by (simp_all add: s3_def s2_def h1 press_other)
    have h: "nth2 (paddleVelocities s3) 1 = 0"
      "y0 = y (nth2 (paddleOffsets s3) 1)" "hi = toFloat (scrHeight s3) - paddleBoundary"
      "y1 = (if keyUP k \<and> \<not> y0 < hi then hi else y0)"
      using assms False by (simp_all add: h3 n upKey_def)
    from two_blocks [OF h(1) s4_def s5_def h(2,3,4)] show ?thesis
      using False by (simp add: n upKey_def downKey_def)
  qed
  from both show "y (nth2 (paddleOffsets (processInput k dt s)) i) =
           (if downKey i k \<and> \<not> paddleBoundary < y1 then paddleBoundary else y1)"
    by (simp add: p)
  from both show "nth2 (paddleVelocities (processInput k dt s)) i =
           (if downKey i k \<and> paddleBoundary < y1 then - paddleSpeed
            else if upKey i k \<and> y0 < hi then paddleSpeed else 0)"
    by (simp add: p)
qed

lemma frame_paddle_cases:
  assumes "y0 = y (nth2 (paddleOffsets s) i)"
    and "hi = toFloat (scrHeight s) - paddleBoundary"
    and "y1 = (if upKey i k \<and> \<not> y0 < hi then hi else y0)"
  shows "y (nth2 (paddleOffsets (frame k dt s)) i) =
           (if downKey i k \<and> \<not> paddleBoundary < y1 then paddleBoundary else y1)
           + (if downKey i k \<and> paddleBoundary < y1 then - paddleSpeed
              else if upKey i k \<and> y0 < hi then paddleSpeed else 0) * dt"
  unfolding frame_paddle
  by (simp only: processInput_paddle [OF assms])

text \<open>
  The pin at a limit, the bound while a key is held, and the invariant with slack.
\<close>

lemma pinned_up:
  assumes "upKey i k" "\<not> downKey i k"
    and "toFloat (scrHeight s) - paddleBoundary \<le> y (nth2 (paddleOffsets s) i)"
  shows "y (nth2 (paddleOffsets (frame k dt s)) i) = toFloat (scrHeight s) - paddleBoundary"
  using assms by (simp add: frame_paddle_cases [OF refl refl refl])

lemma pinned_down:
  assumes "downKey i k" "\<not> upKey i k"
    and "y (nth2 (paddleOffsets s) i) \<le> paddleBoundary"
  shows "y (nth2 (paddleOffsets (frame k dt s)) i) = paddleBoundary"
  using assms by (simp add: frame_paddle_cases [OF refl refl refl])

lemma held_up_bound:
  assumes "0 \<le> dt" "2 * paddleBoundary \<le> toFloat (scrHeight s)" "upKey i k"
  shows "y (nth2 (paddleOffsets (processInput k dt s)) i) \<le> toFloat (scrHeight s) - paddleBoundary"
    and "y (nth2 (paddleOffsets (frame k dt s)) i)
           \<le> toFloat (scrHeight s) - paddleBoundary + paddleSpeed * dt"
proof -
  have m: "0 \<le> paddleSpeed * dt"
    using assms(1) by (simp add: paddleSpeed_def)
  show "y (nth2 (paddleOffsets (processInput k dt s)) i) \<le> toFloat (scrHeight s) - paddleBoundary"
    using assms(2,3) by (simp add: processInput_paddle(1) [OF refl refl refl])
  show "y (nth2 (paddleOffsets (frame k dt s)) i)
           \<le> toFloat (scrHeight s) - paddleBoundary + paddleSpeed * dt"
    using assms(2,3) m by (simp add: frame_paddle_cases [OF refl refl refl])
qed

lemma held_down_bound:
  assumes "0 \<le> dt" "downKey i k"
  shows "paddleBoundary \<le> y (nth2 (paddleOffsets (processInput k dt s)) i)"
    and "paddleBoundary - paddleSpeed * dt \<le> y (nth2 (paddleOffsets (frame k dt s)) i)"
proof -
  have m: "0 \<le> paddleSpeed * dt"
    using assms(1) by (simp add: paddleSpeed_def)
  show "paddleBoundary \<le> y (nth2 (paddleOffsets (processInput k dt s)) i)"
    using assms(2) by (simp add: processInput_paddle(1) [OF refl refl refl])
  show "paddleBoundary - paddleSpeed * dt \<le> y (nth2 (paddleOffsets (frame k dt s)) i)"
    using assms(2) m by (simp add: frame_paddle_cases [OF refl refl refl])
qed

lemma paddleWithin_alt:
  "paddleWithin e s i \<longleftrightarrow>
     paddleBoundary - e \<le> y (nth2 (paddleOffsets s) i) \<and>
     y (nth2 (paddleOffsets s) i) \<le> toFloat (scrHeight s) - paddleBoundary + e"
  by (auto simp add: paddleWithin_def const_defs)

lemma slack_step:
  assumes "0 \<le> dt" "dt \<le> D" "2 * paddleBoundary \<le> toFloat (scrHeight s)"
    and "paddleWithin (paddleSpeed * D) s i"
  shows "paddleWithin (paddleSpeed * D) (frame k dt s) i"
proof -
  have m: "paddleSpeed * dt \<le> paddleSpeed * D" "0 \<le> paddleSpeed * dt"
    using assms(1,2) by (simp_all add: paddleSpeed_def)
  have lo: "paddleBoundary - paddleSpeed * D \<le> y (nth2 (paddleOffsets s) i)"
    and hi: "y (nth2 (paddleOffsets s) i)
        \<le> toFloat (scrHeight s) - paddleBoundary + paddleSpeed * D"
    using assms(4) by (simp_all add: paddleWithin_alt)
  show ?thesis
    unfolding paddleWithin_alt frame_paddles(2) frame_paddle_cases [OF refl refl refl]
    using assms(3) m lo hi by (auto split: if_splits)
qed

lemma run_scrHeight: "scrHeight (run kds s) = scrHeight s"
  by (induction kds arbitrary: s) (simp_all add: frame_paddles(2))

lemma held_up_run:
  "kds \<noteq> [] \<Longrightarrow> \<forall>kd\<in>set kds. upKey i (fst kd) \<and> \<not> downKey i (fst kd) \<Longrightarrow>
   toFloat (scrHeight s) - paddleBoundary \<le> y (nth2 (paddleOffsets s) i) \<Longrightarrow>
   y (nth2 (paddleOffsets (run kds s)) i) = toFloat (scrHeight s) - paddleBoundary"
proof (induction kds arbitrary: s)
  case Nil
  then show ?case by simp
next
  case (Cons kd kds)
  let ?s = "frame (fst kd) (snd kd) s"
  have k: "upKey i (fst kd)" "\<not> downKey i (fst kd)"
    using Cons.prems(2) by simp_all
  have p: "y (nth2 (paddleOffsets ?s) i) = toFloat (scrHeight s) - paddleBoundary"
    using k Cons.prems(3) by (rule pinned_up)
  show ?case
  proof (cases "kds = []")
    case True
    then show ?thesis using p by simp
  next
    case False
    have a: "\<forall>kd\<in>set kds. upKey i (fst kd) \<and> \<not> downKey i (fst kd)"
      using Cons.prems(2) by simp
    have b: "toFloat (scrHeight ?s) - paddleBoundary \<le> y (nth2 (paddleOffsets ?s) i)"
      by (simp add: p frame_paddles(2))
    from Cons.IH [OF False a b] show ?thesis
      by (simp add: frame_paddles(2))
  qed
qed

lemma held_down_run:
  "kds \<noteq> [] \<Longrightarrow> \<forall>kd\<in>set kds. downKey i (fst kd) \<and> \<not> upKey i (fst kd) \<Longrightarrow>
   y (nth2 (paddleOffsets s) i) \<le> paddleBoundary \<Longrightarrow>
   y (nth2 (paddleOffsets (run kds s)) i) = paddleBoundary"
proof (induction kds arbitrary: s)
  case Nil
  then show ?case by simp
next
  case (Cons kd kds)
  let ?s = "frame (fst kd) (snd kd) s"
  have k: "downKey i (fst kd)" "\<not> upKey i (fst kd)"
    using Cons.prems(2) by simp_all
  have p: "y (nth2 (paddleOffsets ?s) i) = paddleBoundary"
    using k Cons.prems(3) by (rule pinned_down)
  show ?case
  proof (cases "kds = []")
    case True
    then show ?thesis using p by simp
  next
    case False
    have a: "\<forall>kd\<in>set kds. downKey i (fst kd) \<and> \<not> upKey i (fst kd)"
      using Cons.prems(2) by simp
    have b: "y (nth2 (paddleOffsets ?s) i) \<le> paddleBoundary"
      by (simp add: p)
    from Cons.IH [OF False a b] show ?thesis by simp
  qed
qed

text \<open>
  C4, amended. On a screen at least twice the paddle boundary high, for every frame with
  dt >= 0 and arbitrary keys: the clamp pins a paddle found at or beyond a limit to exactly
  that limit when only the key towards it is held, so holding that key keeps the paddle at
  the limit across repeated frames; right after the clamp a paddle whose up key is held is
  at or below its upper limit and one whose down key is held is at or above its lower
  limit; within the frame the paddle then moves by at most paddleSpeed * dt, so it can end
  the frame beyond a limit by at most that distance, and with frame times up to D it stays
  within its limits widened by paddleSpeed * D.
\<close>

theorem paddle_clamp:
  assumes "0 \<le> dt" and "2 * (halfPaddleHeight + ballRadius) \<le> toFloat (scrHeight s)"
  shows "(dt \<le> D \<and> paddleWithin (paddleSpeed * D) s i \<longrightarrow>
            paddleWithin (paddleSpeed * D) (frame k dt s) i) \<and>
         (upKey i k \<and> \<not> downKey i k \<and>
          toFloat (scrHeight s) - halfPaddleHeight - ballRadius \<le> y (nth2 (paddleOffsets s) i) \<longrightarrow>
            y (nth2 (paddleOffsets (frame k dt s)) i)
              = toFloat (scrHeight s) - halfPaddleHeight - ballRadius) \<and>
         (downKey i k \<and> \<not> upKey i k \<and>
          y (nth2 (paddleOffsets s) i) \<le> halfPaddleHeight + ballRadius \<longrightarrow>
            y (nth2 (paddleOffsets (frame k dt s)) i) = halfPaddleHeight + ballRadius) \<and>
         (upKey i k \<longrightarrow>
            y (nth2 (paddleOffsets (processInput k dt s)) i)
              \<le> toFloat (scrHeight s) - halfPaddleHeight - ballRadius \<and>
            y (nth2 (paddleOffsets (frame k dt s)) i)
              \<le> toFloat (scrHeight s) - halfPaddleHeight - ballRadius + paddleSpeed * dt) \<and>
         (downKey i k \<longrightarrow>
            halfPaddleHeight + ballRadius \<le> y (nth2 (paddleOffsets (processInput k dt s)) i) \<and>
            halfPaddleHeight + ballRadius - paddleSpeed * dt
              \<le> y (nth2 (paddleOffsets (frame k dt s)) i)) \<and>
         (\<forall>kds. kds \<noteq> [] \<and> (\<forall>kd\<in>set kds. upKey i (fst kd) \<and> \<not> downKey i (fst kd)) \<and>
            toFloat (scrHeight s) - halfPaddleHeight - ballRadius \<le> y (nth2 (paddleOffsets s) i) \<longrightarrow>
            y (nth2 (paddleOffsets (run kds s)) i)
              = toFloat (scrHeight s) - halfPaddleHeight - ballRadius) \<and>
         (\<forall>kds. kds \<noteq> [] \<and> (\<forall>kd\<in>set kds. downKey i (fst kd) \<and> \<not> upKey i (fst kd)) \<and>
            y (nth2 (paddleOffsets s) i) \<le> halfPaddleHeight + ballRadius \<longrightarrow>
            y (nth2 (paddleOffsets (run kds s)) i) = halfPaddleHeight + ballRadius)"
proof -
  have b: "halfPaddleHeight + ballRadius = paddleBoundary"
    "toFloat (scrHeight s) - halfPaddleHeight - ballRadius = toFloat (scrHeight s) - paddleBoundary"
    by (simp_all add: const_defs)
  have h: "2 * paddleBoundary \<le> toFloat (scrHeight s)"
    using assms(2) by (simp add: b)
  have c1: "dt \<le> D \<and> paddleWithin (paddleSpeed * D) s i \<longrightarrow>
            paddleWithin (paddleSpeed * D) (frame k dt s) i"
    using slack_step [OF assms(1) _ h] by blast
  have c2: "upKey i k \<and> \<not> downKey i k \<and>
          toFloat (scrHeight s) - paddleBoundary \<le> y (nth2 (paddleOffsets s) i) \<longrightarrow>
            y (nth2 (paddleOffsets (frame k dt s)) i) = toFloat (scrHeight s) - paddleBoundary"
    using pinned_up by blast
  have c3: "downKey i k \<and> \<not> upKey i k \<and> y (nth2 (paddleOffsets s) i) \<le> paddleBoundary \<longrightarrow>
            y (nth2 (paddleOffsets (frame k dt s)) i) = paddleBoundary"
    using pinned_down by blast
  have c4: "upKey i k \<longrightarrow>
            y (nth2 (paddleOffsets (processInput k dt s)) i)
              \<le> toFloat (scrHeight s) - paddleBoundary \<and>
            y (nth2 (paddleOffsets (frame k dt s)) i)
              \<le> toFloat (scrHeight s) - paddleBoundary + paddleSpeed * dt"
    using held_up_bound [OF assms(1) h] by blast
  have c5: "downKey i k \<longrightarrow>
            paddleBoundary \<le> y (nth2 (paddleOffsets (processInput k dt s)) i) \<and>
            paddleBoundary - paddleSpeed * dt \<le> y (nth2 (paddleOffsets (frame k dt s)) i)"
    using held_down_bound [OF assms(1)] by blast
  have c6: "\<forall>kds. kds \<noteq> [] \<and> (\<forall>kd\<in>set kds. upKey i (fst kd) \<and> \<not> downKey i (fst kd)) \<and>
            toFloat (scrHeight s) - paddleBoundary \<le> y (nth2 (paddleOffsets s) i) \<longrightarrow>
            y (nth2 (paddleOffsets (run kds s)) i) = toFloat (scrHeight s) - paddleBoundary"
    using held_up_run by blast
  have c7: "\<forall>kds. kds \<noteq> [] \<and> (\<forall>kd\<in>set kds. downKey i (fst kd) \<and> \<not> upKey i (fst kd)) \<and>
            y (nth2 (paddleOffsets s) i) \<le> paddleBoundary \<longrightarrow>
            y (nth2 (paddleOffsets (run kds s)) i) = paddleBoundary"
    using held_down_run by blast
  from c1 c2 c3 c4 c5 c6 c7 show ?thesis
    unfolding b by blast
qed

text \<open>
  A sixtieth of a second with W and the down arrow held, the left paddle 2 pixels above
  its upper limit and the right paddle 2 pixels below its lower limit: both are pinned.
\<close>

theorem paddle_clamp_witness:
  "(0::real) \<le> 1/60 \<and> (1/60::real) \<le> 1/60 \<and>
   2 * (halfPaddleHeight + ballRadius) \<le> toFloat (scrHeight edgeState) \<and>
   paddleWithin (paddleSpeed * (1/60)) edgeState 0 \<and>
   paddleWithin (paddleSpeed * (1/60)) edgeState 1 \<and>
   upKey 0 edgeKeys \<and> \<not> downKey 0 edgeKeys \<and> downKey 1 edgeKeys \<and> \<not> upKey 1 edgeKeys \<and>
   y (nth2 (paddleOffsets edgeState) 0) = 544 \<and> y (nth2 (paddleOffsets edgeState) 1) = 56 \<and>
   y (nth2 (paddleOffsets (frame edgeKeys (1/60) edgeState)) 0) = 542 \<and>
   y (nth2 (paddleOffsets (frame edgeKeys (1/60) edgeState)) 1) = 58 \<and>
   paddleWithin (paddleSpeed * (1/60)) (frame edgeKeys (1/60) edgeState) 0 \<and>
   paddleWithin (paddleSpeed * (1/60)) (frame edgeKeys (1/60) edgeState) 1 \<and>
   y (nth2 (paddleOffsets (run [(edgeKeys, 1/60), (edgeKeys, 1/60)] edgeState)) 0) = 542 \<and>
   y (nth2 (paddleOffsets (run [(edgeKeys, 1/60), (edgeKeys, 1/60)] edgeState)) 1) = 58 \<and>
   y (nth2 (paddleOffsets (processInput edgeKeys (1/60) edgeState)) 0) \<le> 542 \<and>
   58 \<le> y (nth2 (paddleOffsets (processInput edgeKeys (1/60) edgeState)) 1)"
proof -
  have t: "(0::real) \<le> 1/60" "(1/60::real) \<le> 1/60"
    by simp_all
  have h: "2 * (halfPaddleHeight + ballRadius) \<le> toFloat (scrHeight edgeState)"
    by (simp add: edgeState_def initState_def const_defs toFloat_def)
  have w: "paddleWithin (paddleSpeed * (1/60)) edgeState 0"
    "paddleWithin (paddleSpeed * (1/60)) edgeState 1"
    by (simp_all add: paddleWithin_def edgeState_def initState_def const_defs toFloat_def nth2_def)
  have k: "upKey 0 edgeKeys" "\<not> downKey 0 edgeKeys" "downKey 1 edgeKeys" "\<not> upKey 1 edgeKeys"
    by (simp_all add: upKey_def downKey_def edgeKeys_def)
  have v: "y (nth2 (paddleOffsets edgeState) 0) = 544" "y (nth2 (paddleOffsets edgeState) 1) = 56"
    "toFloat (scrHeight edgeState) - halfPaddleHeight - ballRadius = 542"
    "halfPaddleHeight + ballRadius = 58"
    by (simp_all add: edgeState_def initState_def const_defs toFloat_def nth2_def)
  note r0 = paddle_clamp [OF t(1) h, of "1/60" 0 edgeKeys]
  note r1 = paddle_clamp [OF t(1) h, of "1/60" 1 edgeKeys]
  from r0 k v have a0: "y (nth2 (paddleOffsets (frame edgeKeys (1/60) edgeState)) 0) = 542"
    by simp
  from r1 k v have a1: "y (nth2 (paddleOffsets (frame edgeKeys (1/60) edgeState)) 1) = 58"
    by simp
  from r0 t w have b0: "paddleWithin (paddleSpeed * (1/60)) (frame edgeKeys (1/60) edgeState) 0"
    by blast
  from r1 t w have b1: "paddleWithin (paddleSpeed * (1/60)) (frame edgeKeys (1/60) edgeState) 1"
    by blast
  have l: "[(edgeKeys, 1/60 :: real), (edgeKeys, 1/60)] \<noteq> []"
    "\<forall>kd\<in>set [(edgeKeys, 1/60 :: real), (edgeKeys, 1/60)]. upKey 0 (fst kd) \<and> \<not> downKey 0 (fst kd)"
    using k by simp_all
  from r0 have "[(edgeKeys, 1/60 :: real), (edgeKeys, 1/60)] \<noteq> [] \<and>
      (\<forall>kd\<in>set [(edgeKeys, 1/60 :: real), (edgeKeys, 1/60)]. upKey 0 (fst kd) \<and> \<not> downKey 0 (fst kd)) \<and>
      toFloat (scrHeight edgeState) - halfPaddleHeight - ballRadius
        \<le> y (nth2 (paddleOffsets edgeState) 0) \<longrightarrow>
      y (nth2 (paddleOffsets (run [(edgeKeys, 1/60), (edgeKeys, 1/60)] edgeState)) 0)
        = toFloat (scrHeight edgeState) - halfPaddleHeight - ballRadius"
    by blast
  with l have c: "y (nth2 (paddleOffsets (run [(edgeKeys, 1/60), (edgeKeys, 1/60)] edgeState)) 0) = 542"
    by (simp add: v)
  from r1 have "[(edgeKeys, 1/60 :: real), (edgeKeys, 1/60)] \<noteq> [] \<and>
      (\<forall>kd\<in>set [(edgeKeys, 1/60 :: real), (edgeKeys, 1/60)]. downKey 1 (fst kd) \<and> \<not> upKey 1 (fst kd)) \<and>
      y (nth2 (paddleOffsets edgeState) 1) \<le> halfPaddleHeight + ballRadius \<longrightarrow>
      y (nth2 (paddleOffsets (run [(edgeKeys, 1/60), (edgeKeys, 1/60)] edgeState)) 1)
        = halfPaddleHeight + ballRadius"
    by blast
  moreover have "[(edgeKeys, 1/60 :: real), (edgeKeys, 1/60)] \<noteq> [] \<and>
      (\<forall>kd\<in>set [(edgeKeys, 1/60 :: real), (edgeKeys, 1/60)]. downKey 1 (fst kd) \<and> \<not> upKey 1 (fst kd)) \<and>
      y (nth2 (paddleOffsets edgeState) 1) \<le> halfPaddleHeight + ballRadius"
    using k v(2) v(4) by simp
  ultimately have "y (nth2 (paddleOffsets (run [(edgeKeys, 1/60), (edgeKeys, 1/60)] edgeState)) 1)
      = halfPaddleHeight + ballRadius"
    by blast
  then have c1: "y (nth2 (paddleOffsets (run [(edgeKeys, 1/60), (edgeKeys, 1/60)] edgeState)) 1) = 58"
    by (simp only: v(4))
  from r0 k have "y (nth2 (paddleOffsets (processInput edgeKeys (1/60) edgeState)) 0)
      \<le> toFloat (scrHeight edgeState) - halfPaddleHeight - ballRadius"
    by blast
  then have e0: "y (nth2 (paddleOffsets (processInput edgeKeys (1/60) edgeState)) 0) \<le> 542"
    by (simp add: v)
  from r1 k have "halfPaddleHeight + ballRadius
      \<le> y (nth2 (paddleOffsets (processInput edgeKeys (1/60) edgeState)) 1)"
    by blast
  then have e1: "58 \<le> y (nth2 (paddleOffsets (processInput edgeKeys (1/60) edgeState)) 1)"
    by (simp add: v)
  from t h w k v(1,2) a0 a1 b0 b1 c c1 e0 e1 show ?thesis by blast
qed

section \<open>The frame counter\<close>

text \<open>
  C10. The frame counter is a 32-bit unsigned value, so the sentinel -1 is 4294967295,
  which is at least the threshold 10: for every counter value the source's test
  "counter >= threshold or counter == -1" gives the same boolean as "counter >= threshold".
\<close>

theorem eligible_sentinel_redundant:
  "eligible c = eligible_simple c"
  using sentinel_ge_threshold by (auto simp add: eligible_def eligible_simple_def)

lemma quiet_run_counts:
  "collisionFree kds s \<Longrightarrow> framesSinceLastCollision s \<noteq> - 1 \<Longrightarrow>
   unat (framesSinceLastCollision s) + length kds < 4294967296 \<Longrightarrow>
   unat (framesSinceLastCollision (run kds s)) = unat (framesSinceLastCollision s) + length kds"
proof (induction kds arbitrary: s)
  case Nil
  then show ?case by simp
next
  case (Cons kd kds)
  let ?s = "frame (fst kd) (snd kd) s"
  have q: "\<not> detected (prePaddle (fst kd) (snd kd) s)" and cf: "collisionFree kds ?s"
    using Cons.prems(1) by simp_all
  have c: "framesSinceLastCollision ?s = framesSinceLastCollision s + 1"
    using frame_quiet_counter [OF q] Cons.prems(2) by simp
  have u: "unat (framesSinceLastCollision ?s) = unat (framesSinceLastCollision s) + 1"
    unfolding c using Cons.prems(2) by (rule counter_succ)
  show ?case
  proof (cases kds)
    case Nil
    then show ?thesis using u by simp
  next
    case (Cons a list)
    then have "unat (framesSinceLastCollision ?s) < 4294967295"
      using u Cons.prems(3) by simp
    then have n: "framesSinceLastCollision ?s \<noteq> - 1"
      by (simp add: sentinel_iff)
    have "unat (framesSinceLastCollision ?s) + length kds < 4294967296"
      using u Cons.prems(3) by simp
    from Cons.IH [OF cf n this] u show ?thesis by simp
  qed
qed

lemma quiet_run_sentinel:
  "collisionFree kds s \<Longrightarrow> framesSinceLastCollision s = - 1 \<Longrightarrow>
   framesSinceLastCollision (run kds s) = - 1"
proof (induction kds arbitrary: s)
  case Nil
  then show ?case by simp
next
  case (Cons kd kds)
  have q: "\<not> detected (prePaddle (fst kd) (snd kd) s)"
    and cf: "collisionFree kds (frame (fst kd) (snd kd) s)"
    using Cons.prems(1) by simp_all
  have "framesSinceLastCollision (frame (fst kd) (snd kd) s) = - 1"
    using frame_quiet_counter [OF q] Cons.prems(2) by simp
  from Cons.IH [OF cf this] show ?case by simp
qed

text \<open>
  Frames of no duration, without keys, from the ball at the centre.
\<close>

lemma centred_quiet:
  assumes "centred s"
  shows "\<not> detected (prePaddle noKeys 0 s)"
proof -
  let ?p = "prePaddle noKeys 0 s"
  have i: "processInput noKeys 0 s = s\<lparr>paddleVelocities := (0, 0)\<rparr>"
    by (simp add: processInput_def noKeys_def)
  have r: "resetCode (wallCollisions (countFrames (processInput noKeys 0 s))) = 0"
    using assms by (simp add: resetCode_def centred_def const_defs toFloat_def)
  have b: "ballOffset ?p = \<lparr>x = 400, y = 300\<rparr>"
    using assms r by (simp add: prePaddle_def scoring_def centred_def)
  have h: "scrHeight ?p = 600"
    using assms by (simp add: prePaddle_def centred_def)
  have o: "paddleOffsets ?p = (\<lparr>x = 35, y = 300\<rparr>, \<lparr>x = 765, y = 300\<rparr>)"
    using assms by (simp add: prePaddle_def centred_def i)
  have "\<not> collisionPossible ?p"
    by (simp add: collisionPossible_def distance_def candidate_def b h o nth2_def toFloat_def
        const_defs)
  then show ?thesis by (simp add: detected_def)
qed

lemma centred_frame:
  assumes "centred s"
  shows "centred (frame noKeys 0 s)"
proof -
  have i: "processInput noKeys 0 s = s\<lparr>paddleVelocities := (0, 0)\<rparr>"
    by (simp add: processInput_def noKeys_def)
  have q: "paddleCollisions (prePaddle noKeys 0 s) = prePaddle noKeys 0 s"
    using centred_quiet [OF assms] by (rule paddleCollisions_undetected)
  have r: "resetCode (wallCollisions (countFrames (processInput noKeys 0 s))) = 0"
    using assms by (simp add: resetCode_def centred_def const_defs toFloat_def)
  have "frame noKeys 0 s = integrate 0 (paddleCollisions (prePaddle noKeys 0 s))"
    by (rule frame_prePaddle)
  then have f: "frame noKeys 0 s = integrate 0 (prePaddle noKeys 0 s)"
    by (simp only: q)
  show ?thesis
    using assms r unfolding f
    by (simp add: centred_def integrate_def prePaddle_def scoring_def i)
qed

lemma centred_run:
  "centred s \<Longrightarrow> collisionFree (replicate n (noKeys, 0)) s"
proof (induction n arbitrary: s)
  case 0
  then show ?case by simp
next
  case (Suc n)
  from Suc.IH [OF centred_frame [OF Suc.prems]] centred_quiet [OF Suc.prems]
  show ?case by simp
qed

text \<open>
  C5, as stated, fails. A frame of one second from the ball on the left paddle detects a
  collision and sets the counter to 0. A frame of no duration then scores and puts the ball
  at the centre, and every further frame of no duration leaves it there, away from both
  paddles. After 4294967295 frames the counter, incremented once per frame, holds
  4294967295, which is the sentinel -1.
\<close>

theorem counter_reaches_sentinel:
  "detected (prePaddle noKeys 1 hitState) \<and>
   framesSinceLastCollision (frame noKeys 1 hitState) = 0 \<and>
   framesSinceLastCollision (run (replicate 4294967295 (noKeys, 0)) (frame noKeys 1 hitState)) = - 1"
proof -
  let ?s1 = "frame noKeys 1 hitState"
  let ?s2 = "frame noKeys 0 ?s1"
  have d: "detected (prePaddle noKeys 1 hitState)"
    by (simp add: detected_def prePaddle_def phase_defs expr_defs const_defs Let_def state_defs)
  then have z: "framesSinceLastCollision ?s1 = 0"
    by (rule frame_hit_counter)
  have s1: "scrWidth ?s1 = 800" "scrHeight ?s1 = 600"
    "paddleOffsets ?s1 = (\<lparr>x = 35, y = 300\<rparr>, \<lparr>x = 765, y = 300\<rparr>)"
    "x (ballOffset ?s1) < 0"
    by (simp_all add: frame_phases phase_defs expr_defs const_defs Let_def state_defs)
  have i: "processInput noKeys 0 ?s1 = ?s1\<lparr>paddleVelocities := (0, 0)\<rparr>"
    by (simp add: processInput_def noKeys_def)
  have r: "resetCode (wallCollisions (countFrames (processInput noKeys 0 ?s1))) = 1"
    using s1(4) by (simp add: resetCode_def const_defs)
  have p: "ballOffset (prePaddle noKeys 0 ?s1) = \<lparr>x = 400, y = 300\<rparr>"
    "scrHeight (prePaddle noKeys 0 ?s1) = 600" "scrWidth (prePaddle noKeys 0 ?s1) = 800"
    "paddleOffsets (prePaddle noKeys 0 ?s1) = (\<lparr>x = 35, y = 300\<rparr>, \<lparr>x = 765, y = 300\<rparr>)"
    using r unfolding prePaddle_def scoring_def by (simp_all add: s1 i toFloat_def)
  have "\<not> collisionPossible (prePaddle noKeys 0 ?s1)"
    by (simp add: collisionPossible_def distance_def candidate_def p nth2_def toFloat_def
        const_defs)
  then have q: "\<not> detected (prePaddle noKeys 0 ?s1)"
    by (simp add: detected_def)
  then have u: "paddleCollisions (prePaddle noKeys 0 ?s1) = prePaddle noKeys 0 ?s1"
    by (rule paddleCollisions_undetected)
  have "?s2 = integrate 0 (paddleCollisions (prePaddle noKeys 0 ?s1))"
    by (rule frame_prePaddle)
  then have f: "?s2 = integrate 0 (prePaddle noKeys 0 ?s1)"
    by (simp only: u)
  have c: "centred ?s2"
    unfolding f by (simp add: centred_def integrate_def p)
  have c2: "framesSinceLastCollision ?s2 = 1"
    using frame_quiet_counter [OF q] by (simp add: z)
  have "unat (framesSinceLastCollision (run (replicate 4294967294 (noKeys, 0)) ?s2))
      = unat (framesSinceLastCollision ?s2) + length (replicate 4294967294 (noKeys, 0 :: real))"
    using centred_run [OF c] by (rule quiet_run_counts) (simp_all add: c2)
  then have "unat (framesSinceLastCollision (run (replicate 4294967294 (noKeys, 0)) ?s2))
      = 4294967295"
    by (simp add: c2)
  then have e: "framesSinceLastCollision (run (replicate 4294967294 (noKeys, 0)) ?s2) = - 1"
    by (simp add: sentinel_iff)
  have "(4294967295 :: nat) = Suc 4294967294"
    by simp
  then have "run (replicate 4294967295 (noKeys, 0)) ?s1
      = run (replicate 4294967294 (noKeys, 0)) ?s2"
    by (simp only: replicate_Suc run.simps fst_conv snd_conv)
  with e d z show ?thesis by simp
qed

text \<open>
  C5, amended. Over frames without a paddle collision, a counter that is not the sentinel
  increases by exactly 1 per frame, without wrapping, up to 4294967295; that value is the
  sentinel, and a counter that holds the sentinel keeps it.
\<close>

theorem counter_counts_up:
  assumes "collisionFree kds s"
  shows "(framesSinceLastCollision s \<noteq> - 1 \<and>
            unat (framesSinceLastCollision s) + length kds < 4294967296 \<longrightarrow>
          unat (framesSinceLastCollision (run kds s))
            = unat (framesSinceLastCollision s) + length kds) \<and>
         (framesSinceLastCollision s = - 1 \<longrightarrow> framesSinceLastCollision (run kds s) = - 1)"
  using quiet_run_counts [OF assms] quiet_run_sentinel [OF assms] by blast

text \<open>
  One collision-free frame from the counter 4294967294.
\<close>

theorem counter_counts_up_witness:
  "collisionFree [(noKeys, 1/60)] lateState \<and>
   framesSinceLastCollision lateState \<noteq> - 1 \<and>
   unat (framesSinceLastCollision lateState) + length [(noKeys, 1/60 :: real)] < 4294967296 \<and>
   unat (framesSinceLastCollision (run [(noKeys, 1/60)] lateState)) = 4294967295"
proof -
  have a: "framesSinceLastCollision lateState = 4294967294"
    by (simp add: state_defs)
  have b: "\<not> detected (prePaddle noKeys (1/60) lateState)"
    by (simp add: detected_def prePaddle_def phase_defs expr_defs const_defs Let_def state_defs)
  have c: "collisionFree [(noKeys, 1/60)] lateState"
    using b by simp
  have d: "framesSinceLastCollision lateState \<noteq> - 1"
    by (simp add: a)
  have e: "unat (framesSinceLastCollision lateState) + length [(noKeys, 1/60 :: real)] < 4294967296"
    by (simp add: a)
  from counter_counts_up [OF c] d e
  have "unat (framesSinceLastCollision (run [(noKeys, 1/60)] lateState))
      = unat (framesSinceLastCollision lateState) + length [(noKeys, 1/60 :: real)]"
    by blast
  then have "unat (framesSinceLastCollision (run [(noKeys, 1/60)] lateState)) = 4294967295"
    by (simp add: a)
  with c d e show ?thesis by blast
qed

section \<open>The cooldown\<close>

lemma cooldown_step:
  assumes "unat (framesSinceLastCollision s) < 9"
  shows "\<not> eligible (framesSinceLastCollision (prePaddle k dt s))"
    and "unat (framesSinceLastCollision (frame k dt s)) = unat (framesSinceLastCollision s) + 1"
proof -
  have n: "framesSinceLastCollision s \<noteq> - 1"
    using assms by (simp add: sentinel_iff)
  have p: "framesSinceLastCollision (prePaddle k dt s) = framesSinceLastCollision s + 1"
    using n by (simp add: prePaddle_counter)
  have u: "unat (framesSinceLastCollision s + 1) = unat (framesSinceLastCollision s) + 1"
    using n by (rule counter_succ)
  show e: "\<not> eligible (framesSinceLastCollision (prePaddle k dt s))"
    using assms by (simp add: p eligible_unat u)
  show "unat (framesSinceLastCollision (frame k dt s)) = unat (framesSinceLastCollision s) + 1"
    by (simp add: frame_counter paddleCollisions_skip [OF e] p u)
qed

lemma cooldown_run:
  "unat (framesSinceLastCollision s) + length kds < 10 \<Longrightarrow>
   unat (framesSinceLastCollision (run kds s)) = unat (framesSinceLastCollision s) + length kds"
proof (induction kds arbitrary: s)
  case Nil
  then show ?case by simp
next
  case (Cons kd kds)
  have "unat (framesSinceLastCollision s) < 9"
    using Cons.prems by simp
  then have u: "unat (framesSinceLastCollision (frame (fst kd) (snd kd) s))
      = unat (framesSinceLastCollision s) + 1"
    by (rule cooldown_step(2))
  then have "unat (framesSinceLastCollision (frame (fst kd) (snd kd) s)) + length kds < 10"
    using Cons.prems by simp
  from Cons.IH [OF this] u show ?case by simp
qed

lemma cooldown_open:
  assumes "unat (framesSinceLastCollision s) = 9"
  shows "eligible (framesSinceLastCollision (prePaddle k dt s))"
proof -
  have n: "framesSinceLastCollision s \<noteq> - 1"
    using assms by (simp add: sentinel_iff)
  have p: "framesSinceLastCollision (prePaddle k dt s) = framesSinceLastCollision s + 1"
    using n by (simp add: prePaddle_counter)
  have u: "unat (framesSinceLastCollision s + 1) = unat (framesSinceLastCollision s) + 1"
    using n by (rule counter_succ)
  show ?thesis
    using assms by (simp add: p eligible_unat u)
qed

text \<open>
  The code detects a collision exactly for an overlap that is not beside the paddle.
\<close>

lemma sq_le_64:
  fixes a :: real
  assumes "a * a \<le> 64"
  shows "a \<le> 8"
proof (rule ccontr)
  assume "\<not> a \<le> 8"
  then have "8 < a" by simp
  then have "8 * 8 < a * a"
    by (intro mult_strict_mono) simp_all
  with assms show False by simp
qed

lemma sq_gt_64:
  fixes b :: real
  assumes "b < - 8"
  shows "64 < b * b"
proof -
  have "8 < - b" using assms by simp
  then have "8 * 8 < (- b) * (- b)"
    by (intro mult_strict_mono) simp_all
  then show ?thesis by simp
qed

lemma sum_sq_parts:
  fixes a b :: real
  assumes "a * a + b * b \<le> 64"
  shows "a \<le> 8" and "b \<le> 8"
proof -
  have "0 \<le> a * a" "0 \<le> b * b" by simp_all
  with assms have s: "a * a \<le> 64" "b * b \<le> 64" by linarith+
  show "a \<le> 8" using s(1) by (rule sq_le_64)
  show "b \<le> 8" using s(2) by (rule sq_le_64)
qed

lemma classify_geometry:
  fixes dx dy :: real
  assumes "0 \<le> dx" "0 \<le> dy"
  shows "(dx \<le> 5 + 8 \<and> dy \<le> 50 + 8 \<and>
          ((dx \<le> 5 \<and> 5 - 8 \<le> dx) \<or> (dy \<le> 50 \<and> 50 - 8 \<le> dy) \<or>
           (dx - 5) * (dx - 5) + (dy - 50) * (dy - 50) \<le> 8 * 8))
         \<longleftrightarrow>
         (max (dx - 5) 0 * max (dx - 5) 0 + max (dy - 50) 0 * max (dy - 50) 0 \<le> 8 * 8 \<and>
          \<not> (5 < dx \<and> dy < 50 - 8))"
proof (cases "dx \<le> 5")
  case True
  have "max (dx - 5) 0 = 0" using True by simp
  moreover have "max (dy - 50) 0 * max (dy - 50) 0 \<le> 64 \<longleftrightarrow> dy \<le> 58"
  proof
    assume "max (dy - 50) 0 * max (dy - 50) 0 \<le> 64"
    then have "max (dy - 50) 0 \<le> 8" by (rule sq_le_64)
    then show "dy \<le> 58" by simp
  next
    assume "dy \<le> 58"
    then have "0 \<le> max (dy - 50) 0" "max (dy - 50) 0 \<le> 8" by simp_all
    then have "max (dy - 50) 0 * max (dy - 50) 0 \<le> 8 * 8"
      by (intro mult_mono) simp_all
    then show "max (dy - 50) 0 * max (dy - 50) 0 \<le> 64" by simp
  qed
  ultimately show ?thesis using True assms by auto
next
  case dx: False
  show ?thesis
  proof (cases "dy \<le> 50")
    case True
    have e: "max (dy - 50) 0 = 0" "max (dx - 5) 0 = dx - 5" using True dx by simp_all
    have q: "(dx - 5) * (dx - 5) \<le> 64 \<longleftrightarrow> dx \<le> 13"
    proof
      assume "(dx - 5) * (dx - 5) \<le> 64"
      then have "dx - 5 \<le> 8" by (rule sq_le_64)
      then show "dx \<le> 13" by simp
    next
      assume "dx \<le> 13"
      then have "0 \<le> dx - 5" "dx - 5 \<le> 8" using dx by simp_all
      then have "(dx - 5) * (dx - 5) \<le> 8 * 8"
        by (intro mult_mono) simp_all
      then show "(dx - 5) * (dx - 5) \<le> 64" by simp
    qed
    show ?thesis
    proof (cases "42 \<le> dy")
      case True
      then show ?thesis using dx \<open>dy \<le> 50\<close> e q by auto
    next
      case False
      then have "dy - 50 < - 8" by simp
      then have "64 < (dy - 50) * (dy - 50)" by (rule sq_gt_64)
      moreover have "0 \<le> (dx - 5) * (dx - 5)" by simp
      ultimately have "\<not> (dx - 5) * (dx - 5) + (dy - 50) * (dy - 50) \<le> 64" by linarith
      then show ?thesis using dx False by auto
    qed
  next
    case False
    have e: "max (dy - 50) 0 = dy - 50" "max (dx - 5) 0 = dx - 5" using False dx by simp_all
    have "(dx - 5) * (dx - 5) + (dy - 50) * (dy - 50) \<le> 64 \<Longrightarrow> dx \<le> 13 \<and> dy \<le> 58"
      using sum_sq_parts [of "dx - 5" "dy - 50"] by simp
    then show ?thesis using dx False e by auto
  qed
qed

lemma distance_nonneg: "0 \<le> x (distance s)" "0 \<le> y (distance s)"
  by (simp_all add: distance_def)

lemma overlaps_distance:
  "overlaps_spec s (candidate s) \<longleftrightarrow>
     max (x (distance s) - halfPaddleWidth) 0 * max (x (distance s) - halfPaddleWidth) 0 +
     max (y (distance s) - halfPaddleHeight) 0 * max (y (distance s) - halfPaddleHeight) 0
       \<le> ballRadius * ballRadius"
  by (simp add: overlaps_spec_def distance_def Let_def)

lemma detected_geometry:
  "detected s \<longleftrightarrow>
     eligible (framesSinceLastCollision s) \<and> overlaps_spec s (candidate s) \<and>
     \<not> (halfPaddleWidth < x (distance s) \<and> y (distance s) < halfPaddleHeight - ballRadius)"
  using classify_geometry [OF distance_nonneg, of s s]
  unfolding detected_iff overlaps_distance collisionPossible_def lengthCollision_def
    widthCollision_def cornerCollision_def
  by (simp add: const_defs)

lemma beside_no_response:
  assumes "halfPaddleWidth < x (distance s)" "y (distance s) < halfPaddleHeight - ballRadius"
  shows "paddleCollisions s = s"
proof -
  have "\<not> detected s"
    using assms by (simp add: detected_geometry)
  then show ?thesis by (rule paddleCollisions_undetected)
qed

lemma response_flip:
  assumes "detected s"
  shows "(x (ballVelocity (paddleCollisions s)) = - x (ballVelocity s) * 1.05 \<and>
          y (ballVelocity (paddleCollisions s))
            = y (ballVelocity s) + 0.3 * nth2 (paddleVelocities s) (candidate s)) \<or>
         (x (ballVelocity (paddleCollisions s)) = x (ballVelocity s) * 1.05 \<and>
          y (ballVelocity (paddleCollisions s))
            = - y (ballVelocity s) + 0.3 * nth2 (paddleVelocities s) (candidate s))"
proof -
  have c: "lengthCollision s \<or> widthCollision s \<or> cornerCollision s"
    using assms by (simp add: detected_iff)
  have "snd (cornerCheck s (faceCheck s)) = (ballVelocity s)\<lparr>x := - x (ballVelocity s)\<rparr> \<or>
        snd (cornerCheck s (faceCheck s)) = (ballVelocity s)\<lparr>y := - y (ballVelocity s)\<rparr>"
    using c by (auto simp add: cornerCheck_def faceCheck_def flipX_def flipY_def)
  then show ?thesis
    unfolding paddleCollisions_detected [OF assms] by auto
qed

text \<open>
  C6, as stated, fails in its second half. With the counter at the sentinel and the ball
  10 pixels beside the centre of the left paddle at the paddle's height, the disc of the
  ball overlaps the paddle, yet none of the three tests of the check matches: the frame
  leaves the ball velocity and the counter as they were.
\<close>

theorem overlap_without_response:
  "eligible (framesSinceLastCollision overlapState) \<and>
   candidate overlapState = 0 \<and>
   overlaps_spec overlapState (candidate overlapState) \<and>
   paddleCollisions overlapState = overlapState \<and>
   ballVelocity (frame noKeys (1/60) overlapState) = \<lparr>x = - 150, y = 150\<rparr> \<and>
   framesSinceLastCollision (frame noKeys (1/60) overlapState) = - 1"
proof -
  have a: "eligible (framesSinceLastCollision overlapState)" "candidate overlapState = 0"
    by (simp_all add: overlapState_def initState_def expr_defs const_defs)
  have b: "overlaps_spec overlapState (candidate overlapState)"
    by (simp add: overlaps_spec_def candidate_def overlapState_def initState_def nth2_def const_defs
        toFloat_def Let_def)
  have d: "x (distance overlapState) = 10" "y (distance overlapState) = 0"
    by (simp_all add: distance_def candidate_def overlapState_def initState_def nth2_def toFloat_def)
  have c: "paddleCollisions overlapState = overlapState"
    by (rule beside_no_response) (simp_all add: d const_defs)
  have p: "prePaddle noKeys (1/60) overlapState = overlapState"
    by (simp add: prePaddle_def phase_defs expr_defs const_defs Let_def overlapState_def
        initState_def noKeys_def)
  have f: "frame noKeys (1/60) overlapState = integrate (1/60) overlapState"
    by (simp add: frame_prePaddle p c)
  have v: "ballVelocity (frame noKeys (1/60) overlapState) = \<lparr>x = - 150, y = 150\<rparr>"
    "framesSinceLastCollision (frame noKeys (1/60) overlapState) = - 1"
    unfolding f by (simp_all add: overlapState_def initState_def)
  from a b c v show ?thesis by blast
qed

text \<open>
  C6, amended. A frame that detects a paddle collision leaves the counter at 0. After
  j - 1 further frames, for 1 <= j < 10, the counter is j - 1, and the next frame (the j-th
  after the collision), whatever its keys, its time and the position of the ball, skips the
  paddle-collision block: the ball velocity at the end of that frame is the one the wall
  test and the score reset left. The tenth frame after the collision passes the guard. In
  every state whose counter is at least the threshold or is the sentinel, an overlap of the
  ball with the candidate paddle produces the response (one velocity component reversed,
  the x velocity amplified, the counter set to 0) unless the centre of the ball is beside
  the paddle, more than halfPaddleWidth from its centre horizontally and less than
  halfPaddleHeight - ballRadius vertically; there the block changes nothing.
\<close>

theorem cooldown_gating:
  assumes "detected (prePaddle k0 dt0 s0)" and "length kds < 9"
  shows "framesSinceLastCollision (frame k0 dt0 s0) = 0 \<and>
         unat (framesSinceLastCollision (run kds (frame k0 dt0 s0))) = length kds \<and>
         \<not> eligible (framesSinceLastCollision (prePaddle k dt (run kds (frame k0 dt0 s0)))) \<and>
         paddleCollisions (prePaddle k dt (run kds (frame k0 dt0 s0)))
           = prePaddle k dt (run kds (frame k0 dt0 s0)) \<and>
         ballVelocity (frame k dt (run kds (frame k0 dt0 s0)))
           = ballVelocity (prePaddle k dt (run kds (frame k0 dt0 s0))) \<and>
         (\<forall>kds'. length kds' = 9 \<longrightarrow>
            eligible (framesSinceLastCollision (prePaddle k dt (run kds' (frame k0 dt0 s0))))) \<and>
         (\<forall>t. (framesThreshold \<le> framesSinceLastCollision t \<or> framesSinceLastCollision t = - 1) \<and>
               overlaps_spec t (candidate t) \<and>
               \<not> (halfPaddleWidth < x (distance t) \<and>
                  y (distance t) < halfPaddleHeight - ballRadius) \<longrightarrow>
               framesSinceLastCollision (paddleCollisions t) = 0 \<and>
               ((x (ballVelocity (paddleCollisions t)) = - x (ballVelocity t) * 1.05 \<and>
                 y (ballVelocity (paddleCollisions t))
                   = y (ballVelocity t) + 0.3 * nth2 (paddleVelocities t) (candidate t)) \<or>
                (x (ballVelocity (paddleCollisions t)) = x (ballVelocity t) * 1.05 \<and>
                 y (ballVelocity (paddleCollisions t))
                   = - y (ballVelocity t) + 0.3 * nth2 (paddleVelocities t) (candidate t)))) \<and>
         (\<forall>t. halfPaddleWidth < x (distance t) \<and>
               y (distance t) < halfPaddleHeight - ballRadius \<longrightarrow>
               paddleCollisions t = t)"
proof -
  let ?s = "frame k0 dt0 s0"
  let ?r = "run kds ?s"
  have z: "framesSinceLastCollision ?s = 0"
    using assms(1) by (rule frame_hit_counter)
  have "unat (framesSinceLastCollision ?s) + length kds < 10"
    using assms(2) by (simp add: z)
  then have "unat (framesSinceLastCollision ?r) = unat (framesSinceLastCollision ?s) + length kds"
    by (rule cooldown_run)
  then have c: "unat (framesSinceLastCollision ?r) = length kds"
    by (simp add: z)
  then have "unat (framesSinceLastCollision ?r) < 9"
    using assms(2) by simp
  then have e: "\<not> eligible (framesSinceLastCollision (prePaddle k dt ?r))"
    by (rule cooldown_step(1))
  then have sk: "paddleCollisions (prePaddle k dt ?r) = prePaddle k dt ?r"
    by (rule paddleCollisions_skip)
  have v: "ballVelocity (frame k dt ?r) = ballVelocity (prePaddle k dt ?r)"
    by (simp add: frame_velocity sk)
  have o: "\<forall>kds'. length kds' = 9 \<longrightarrow>
            eligible (framesSinceLastCollision (prePaddle k dt (run kds' ?s)))"
  proof (intro allI impI)
    fix kds' :: "(keys \<times> real) list"
    assume l: "length kds' = 9"
    then have "unat (framesSinceLastCollision ?s) + length kds' < 10"
      by (simp add: z)
    then have "unat (framesSinceLastCollision (run kds' ?s))
        = unat (framesSinceLastCollision ?s) + length kds'"
      by (rule cooldown_run)
    then have "unat (framesSinceLastCollision (run kds' ?s)) = 9"
      by (simp add: z l)
    then show "eligible (framesSinceLastCollision (prePaddle k dt (run kds' ?s)))"
      by (rule cooldown_open)
  qed
  have g: "\<forall>t. (framesThreshold \<le> framesSinceLastCollision t \<or> framesSinceLastCollision t = - 1) \<and>
               overlaps_spec t (candidate t) \<and>
               \<not> (halfPaddleWidth < x (distance t) \<and>
                  y (distance t) < halfPaddleHeight - ballRadius) \<longrightarrow>
               framesSinceLastCollision (paddleCollisions t) = 0 \<and>
               ((x (ballVelocity (paddleCollisions t)) = - x (ballVelocity t) * 1.05 \<and>
                 y (ballVelocity (paddleCollisions t))
                   = y (ballVelocity t) + 0.3 * nth2 (paddleVelocities t) (candidate t)) \<or>
                (x (ballVelocity (paddleCollisions t)) = x (ballVelocity t) * 1.05 \<and>
                 y (ballVelocity (paddleCollisions t))
                   = - y (ballVelocity t) + 0.3 * nth2 (paddleVelocities t) (candidate t)))"
  proof (intro allI impI)
    fix t
    assume h: "(framesThreshold \<le> framesSinceLastCollision t \<or> framesSinceLastCollision t = - 1) \<and>
               overlaps_spec t (candidate t) \<and>
               \<not> (halfPaddleWidth < x (distance t) \<and>
                  y (distance t) < halfPaddleHeight - ballRadius)"
    then have d: "detected t"
      by (simp add: detected_geometry eligible_def)
    have "framesSinceLastCollision (paddleCollisions t) = 0"
      using d by (simp add: paddleCollisions_detected)
    with response_flip [OF d]
    show "framesSinceLastCollision (paddleCollisions t) = 0 \<and>
               ((x (ballVelocity (paddleCollisions t)) = - x (ballVelocity t) * 1.05 \<and>
                 y (ballVelocity (paddleCollisions t))
                   = y (ballVelocity t) + 0.3 * nth2 (paddleVelocities t) (candidate t)) \<or>
                (x (ballVelocity (paddleCollisions t)) = x (ballVelocity t) * 1.05 \<and>
                 y (ballVelocity (paddleCollisions t))
                   = - y (ballVelocity t) + 0.3 * nth2 (paddleVelocities t) (candidate t)))"
      by blast
  qed
  have n: "\<forall>t. halfPaddleWidth < x (distance t) \<and>
               y (distance t) < halfPaddleHeight - ballRadius \<longrightarrow>
               paddleCollisions t = t"
    using beside_no_response by blast
  from z c e sk v o g n show ?thesis by blast
qed

text \<open>
  Two frames after a collision with the left paddle; the response on the left paddle; no
  response beside it.
\<close>

theorem cooldown_gating_witness:
  "detected (prePaddle noKeys (1/60) hitState) \<and>
   length [(noKeys, 1/60 :: real), (noKeys, 1/60)] < 9 \<and>
   framesSinceLastCollision (frame noKeys (1/60) hitState) = 0 \<and>
   unat (framesSinceLastCollision
           (run [(noKeys, 1/60), (noKeys, 1/60)] (frame noKeys (1/60) hitState))) = 2 \<and>
   \<not> eligible (framesSinceLastCollision
        (prePaddle noKeys (1/60)
           (run [(noKeys, 1/60), (noKeys, 1/60)] (frame noKeys (1/60) hitState)))) \<and>
   framesSinceLastCollision hitState = - 1 \<and>
   overlaps_spec hitState (candidate hitState) \<and>
   \<not> (halfPaddleWidth < x (distance hitState) \<and>
      y (distance hitState) < halfPaddleHeight - ballRadius) \<and>
   framesSinceLastCollision (paddleCollisions hitState) = 0 \<and>
   paddleCollisions overlapState = overlapState \<and>
   eligible (framesSinceLastCollision
     (prePaddle noKeys (1/60) (run (replicate 9 (noKeys, 1/60)) (frame noKeys (1/60) hitState))))"
proof -
  have d: "detected (prePaddle noKeys (1/60) hitState)"
    by (simp add: detected_def prePaddle_def phase_defs expr_defs const_defs Let_def state_defs)
  have l: "length [(noKeys, 1/60 :: real), (noKeys, 1/60)] < 9"
    by simp
  note r = cooldown_gating [OF d l, of noKeys "1/60"]
  from r have a: "framesSinceLastCollision (frame noKeys (1/60) hitState) = 0"
    by blast
  from r have b: "unat (framesSinceLastCollision
           (run [(noKeys, 1/60), (noKeys, 1/60)] (frame noKeys (1/60) hitState))) = 2"
    by simp
  from r have c: "\<not> eligible (framesSinceLastCollision
        (prePaddle noKeys (1/60)
           (run [(noKeys, 1/60), (noKeys, 1/60)] (frame noKeys (1/60) hitState))))"
    by blast
  have h: "framesSinceLastCollision hitState = - 1"
    "overlaps_spec hitState (candidate hitState)"
    "\<not> (halfPaddleWidth < x (distance hitState) \<and>
      y (distance hitState) < halfPaddleHeight - ballRadius)"
    by (simp_all add: overlaps_spec_def distance_def candidate_def hitState_def initState_def
        nth2_def const_defs toFloat_def Let_def)
  from r h have e: "framesSinceLastCollision (paddleCollisions hitState) = 0"
    by blast
  have o: "halfPaddleWidth < x (distance overlapState)"
    "y (distance overlapState) < halfPaddleHeight - ballRadius"
    by (simp_all add: distance_def candidate_def overlapState_def initState_def nth2_def
        const_defs toFloat_def)
  from r o have f: "paddleCollisions overlapState = overlapState"
    by blast
  have n: "length (replicate 9 (noKeys, 1/60 :: real)) = 9"
    by simp
  from r have "length (replicate 9 (noKeys, 1/60 :: real)) = 9 \<longrightarrow>
      eligible (framesSinceLastCollision
        (prePaddle noKeys (1/60) (run (replicate 9 (noKeys, 1/60)) (frame noKeys (1/60) hitState))))"
    by blast
  with n have g: "eligible (framesSinceLastCollision
      (prePaddle noKeys (1/60) (run (replicate 9 (noKeys, 1/60)) (frame noKeys (1/60) hitState))))"
    by blast
  from d l a b c h e f g show ?thesis by blast
qed

section \<open>The collision response\<close>

text \<open>
  C7, as stated, fails. With the ball behind the left paddle, at its upper left corner,
  the candidate is the left paddle and it lies to the right of the ball; the code negates
  the difference all the same (the test is on the index of the paddle) and gets -10, so it
  flips the y velocity, where the rule of the claim gets 10 and flips the x velocity.
\<close>

theorem corner_negation_by_index:
  "eligible (framesSinceLastCollision backState) \<and> collisionPossible backState \<and>
   cornerBranch backState \<and> candidate backState = 0 \<and>
   \<not> x (nth2 (paddleOffsets backState) (candidate backState)) < x (ballOffset backState) \<and>
   signedDifference backState = - 10 \<and> signedDifference_spec backState = 10 \<and>
   y (distance backState) - halfPaddleHeight \<le> signedDifference_spec backState - halfPaddleWidth \<and>
   \<not> y (distance backState) - halfPaddleHeight \<le> signedDifference backState - halfPaddleWidth \<and>
   ballVelocity (paddleCollisions backState) = \<lparr>x = - 150 * 1.05, y = - 150\<rparr>"
  by (simp add: paddleCollisions_def respond_def cornerCheck_def faceCheck_def cornerBranch_def
      signedDifference_spec_def expr_defs const_defs Let_def backState_def initState_def)

text \<open>
  C7, amended. The corner branch is taken only when neither the edge-face interval nor
  the top/bottom-face interval matched and the corner test holds. There the signed
  difference is the paddle's x minus the ball's x, negated exactly when the candidate is
  the left paddle (index 0), whichever side of it the ball is on: it is positive in front
  of the paddle and negative behind it. The x velocity is flipped when
  distance.y - halfPaddleHeight <= signedDifference - halfPaddleWidth and the y velocity
  otherwise, before the amplification and the spin.
\<close>

theorem corner_response:
  assumes "eligible (framesSinceLastCollision s)" and "collisionPossible s"
    and "cornerBranch s"
  shows "\<not> lengthCollision s \<and> \<not> widthCollision s \<and> cornerCollision s \<and>
         signedDifference s =
           (if candidate s = 0 then x (ballOffset s) - x (fst (paddleOffsets s))
            else x (snd (paddleOffsets s)) - x (ballOffset s)) \<and>
         ballVelocity (paddleCollisions s) =
           (if y (distance s) - halfPaddleHeight \<le> signedDifference s - halfPaddleWidth
            then \<lparr>x = - x (ballVelocity s) * 1.05,
                  y = y (ballVelocity s) + 0.3 * nth2 (paddleVelocities s) (candidate s)\<rparr>
            else \<lparr>x = x (ballVelocity s) * 1.05,
                  y = - y (ballVelocity s) + 0.3 * nth2 (paddleVelocities s) (candidate s)\<rparr>)"
proof -
  have n: "\<not> lengthCollision s" "\<not> widthCollision s" "cornerCollision s"
    using assms(3) by (auto simp add: cornerBranch_def faceCheck_def split: if_splits)
  have a: "signedDifference s =
           (if candidate s = 0 then x (ballOffset s) - x (fst (paddleOffsets s))
            else x (snd (paddleOffsets s)) - x (ballOffset s))"
    by (simp add: signedDifference_def Let_def nth2_def)
  have b: "ballVelocity (paddleCollisions s) =
           (if y (distance s) - halfPaddleHeight \<le> signedDifference s - halfPaddleWidth
            then \<lparr>x = - x (ballVelocity s) * 1.05,
                  y = y (ballVelocity s) + 0.3 * nth2 (paddleVelocities s) (candidate s)\<rparr>
            else \<lparr>x = x (ballVelocity s) * 1.05,
                  y = - y (ballVelocity s) + 0.3 * nth2 (paddleVelocities s) (candidate s)\<rparr>)"
    using assms(1,2) n
    by (simp add: paddleCollisions_def respond_def cornerCheck_def faceCheck_def flipX_def flipY_def)
  from n a b show ?thesis by blast
qed

text \<open>
  The ball at the upper right corner of the left paddle: the x velocity is flipped.
\<close>

theorem corner_response_witness:
  "eligible (framesSinceLastCollision cornerState) \<and> collisionPossible cornerState \<and>
   cornerBranch cornerState \<and>
   candidate cornerState = 0 \<and> signedDifference cornerState = 10 \<and>
   ballVelocity (paddleCollisions cornerState) = \<lparr>x = - 150 * 1.05, y = 150\<rparr>"
proof -
  have h: "eligible (framesSinceLastCollision cornerState)" "collisionPossible cornerState"
    "cornerBranch cornerState"
    by (simp_all add: cornerBranch_def faceCheck_def expr_defs const_defs state_defs)
  have v: "candidate cornerState = 0" "x (fst (paddleOffsets cornerState)) = 35"
    "x (ballOffset cornerState) = 45" "y (distance cornerState) = 52"
    "ballVelocity cornerState = \<lparr>x = 150, y = 150\<rparr>"
    "nth2 (paddleVelocities cornerState) 0 = 0"
    by (simp_all add: expr_defs const_defs state_defs)
  note r = corner_response [OF h]
  from r have sd: "signedDifference cornerState = 10"
    by (simp add: v)
  from r have "ballVelocity (paddleCollisions cornerState) = \<lparr>x = - 150 * 1.05, y = 150\<rparr>"
    by (simp add: sd v const_defs)
  with h v(1) sd show ?thesis by blast
qed

text \<open>
  C8. On every detected paddle collision (edge-face, top/bottom-face or corner) the block
  multiplies the x velocity, flipped or not, by 1.05, adds 0.3 times the velocity of the
  candidate paddle to the y velocity and sets the counter to 0; the magnitude of the x
  velocity is 1.05 times what it was, strictly larger when it was not zero. The frame ends
  with that velocity and that counter.
\<close>

theorem paddle_response:
  assumes "eligible (framesSinceLastCollision s)" and "collisionPossible s"
    and "lengthCollision s \<or> widthCollision s \<or> cornerCollision s"
  shows "ballVelocity (paddleCollisions s) =
           \<lparr>x = x (snd (cornerCheck s (faceCheck s))) * 1.05,
            y = y (snd (cornerCheck s (faceCheck s)))
                + 0.3 * nth2 (paddleVelocities s) (candidate s)\<rparr> \<and>
         (snd (cornerCheck s (faceCheck s)) = flipX (ballVelocity s) \<or>
          snd (cornerCheck s (faceCheck s)) = flipY (ballVelocity s)) \<and>
         framesSinceLastCollision (paddleCollisions s) = 0 \<and>
         \<bar>x (ballVelocity (paddleCollisions s))\<bar> = 1.05 * \<bar>x (ballVelocity s)\<bar> \<and>
         (x (ballVelocity s) \<noteq> 0 \<longrightarrow>
            \<bar>x (ballVelocity s)\<bar> < \<bar>x (ballVelocity (paddleCollisions s))\<bar>) \<and>
         (\<forall>k dt s0. s = prePaddle k dt s0 \<longrightarrow>
            ballVelocity (frame k dt s0) = ballVelocity (paddleCollisions s) \<and>
            framesSinceLastCollision (frame k dt s0) = 0)"
proof -
  have d: "detected s"
    using assms by (simp add: detected_iff)
  have p: "paddleCollisions s =
     s\<lparr>ballVelocity := \<lparr>x = x (snd (cornerCheck s (faceCheck s))) * 1.05,
                         y = y (snd (cornerCheck s (faceCheck s)))
                             + 0.3 * nth2 (paddleVelocities s) (candidate s)\<rparr>,
       framesSinceLastCollision := 0\<rparr>"
    using d by (rule paddleCollisions_detected)
  have a: "ballVelocity (paddleCollisions s) =
           \<lparr>x = x (snd (cornerCheck s (faceCheck s))) * 1.05,
            y = y (snd (cornerCheck s (faceCheck s)))
                + 0.3 * nth2 (paddleVelocities s) (candidate s)\<rparr>"
    by (simp add: p)
  have b: "snd (cornerCheck s (faceCheck s)) = flipX (ballVelocity s) \<or>
          snd (cornerCheck s (faceCheck s)) = flipY (ballVelocity s)"
    using assms(3) by (auto simp add: cornerCheck_def faceCheck_def)
  have c: "framesSinceLastCollision (paddleCollisions s) = 0"
    by (simp add: p)
  have e: "\<bar>x (ballVelocity (paddleCollisions s))\<bar> = 1.05 * \<bar>x (ballVelocity s)\<bar>"
    by (simp add: a abs_mult checked_velocity_abs)
  have f: "x (ballVelocity s) \<noteq> 0 \<longrightarrow>
            \<bar>x (ballVelocity s)\<bar> < \<bar>x (ballVelocity (paddleCollisions s))\<bar>"
    unfolding e by auto
  have g: "\<forall>k dt s0. s = prePaddle k dt s0 \<longrightarrow>
            ballVelocity (frame k dt s0) = ballVelocity (paddleCollisions s) \<and>
            framesSinceLastCollision (frame k dt s0) = 0"
    using c by (auto simp add: frame_velocity frame_counter)
  from a b c e f g show ?thesis by blast
qed

text \<open>
  The ball on the left paddle.
\<close>

theorem paddle_response_witness:
  "eligible (framesSinceLastCollision hitState) \<and> collisionPossible hitState \<and>
   (lengthCollision hitState \<or> widthCollision hitState \<or> cornerCollision hitState) \<and>
   framesSinceLastCollision (paddleCollisions hitState) = 0 \<and>
   \<bar>x (ballVelocity (paddleCollisions hitState))\<bar> = 1.05 * 150"
proof -
  have h: "eligible (framesSinceLastCollision hitState)" "collisionPossible hitState"
    "lengthCollision hitState \<or> widthCollision hitState \<or> cornerCollision hitState"
    by (simp_all add: expr_defs const_defs state_defs)
  have v: "x (ballVelocity hitState) = 150"
    by (simp add: state_defs)
  note r = paddle_response [OF h]
  from r have c: "framesSinceLastCollision (paddleCollisions hitState) = 0"
    by blast
  from r have "\<bar>x (ballVelocity (paddleCollisions hitState))\<bar> = 1.05 * \<bar>x (ballVelocity hitState)\<bar>"
    by blast
  then have "\<bar>x (ballVelocity (paddleCollisions hitState))\<bar> = 1.05 * 150"
    by (simp add: v)
  with h c show ?thesis by blast
qed

end
